theory Spec2Isabelle
  imports Main "HOL-Library.Word"
begin

unbundle bit_operations_syntax

section \<open>Bytes, text and decimal numerals\<close>

text \<open>
  A Go \<^verbatim>\<open>[]byte\<close> is a list of 8-bit words, a Go \<^verbatim>\<open>string\<close> an Isabelle string;
  \<open>bytes_of\<close> is the conversion \<^verbatim>\<open>[]byte(s)\<close>.  A \<^verbatim>\<open>uint8\<close> is an \<open>8 word\<close>, so that
  subtraction wraps around as it does in Go.  HTTP status codes are natural numbers.
\<close>

type_synonym byte = "8 word"
type_synonym bytes = "byte list"

definition bytes_of :: "string \<Rightarrow> bytes" where
  "bytes_of s = map of_char s"

definition digit :: "nat \<Rightarrow> char" where
  "digit d = ''0123456789'' ! d"

text \<open>The verb \<^verbatim>\<open>%d\<close> of \<^verbatim>\<open>fmt.Sprintf\<close> on a non-negative integer.\<close>

fun string_of_nat :: "nat \<Rightarrow> string" where
  "string_of_nat n =
     (if n < 10 then [digit n] else string_of_nat (n div 10) @ [digit (n mod 10)])"

declare string_of_nat.simps [simp del]

section \<open>Key configurations and their derivation in \<^verbatim>\<open>main\<close>\<close>

text \<open>
  The identifiers of the HPKE algorithms are 16-bit numbers; the four constants are the ones
  \<^verbatim>\<open>main\<close> passes to the library (HPKE registry values).
\<close>

definition KEM_X25519_HKDF_SHA256 :: "16 word" where
  "KEM_X25519_HKDF_SHA256 = 0x0020"

definition KEM_X25519_KYBER768_DRAFT00 :: "16 word" where
  "KEM_X25519_KYBER768_DRAFT00 = 0x0030"

definition KDF_HKDF_SHA256 :: "16 word" where
  "KDF_HKDF_SHA256 = 0x0001"

definition AEAD_AES128GCM :: "16 word" where
  "AEAD_AES128GCM = 0x0001"

text \<open>
  A private configuration, as far as the gateway program determines it: the arguments of
  \<^verbatim>\<open>ohttp.NewConfigFromSeed\<close>.  \<open>seed\<close> is the content of the seed slice at the time of the
  call, from which the library derives the key pair; what \<^verbatim>\<open>main\<close> writes to the slice
  afterwards does not change a key pair derived before.
\<close>

record PrivateConfig =
  keyID :: byte
  kemID :: "16 word"
  kdfID :: "16 word"
  aeadID :: "16 word"
  seed :: bytes

text \<open>
  \<^verbatim>\<open>ohttp.NewConfigFromSeed\<close> belongs to the OHTTP library.  Whether the library rejects a
  suite or a seed is the parameter \<open>rejects\<close>; a configuration that is not rejected carries
  the arguments it was built from.
\<close>

definition NewConfigFromSeed ::
  "(16 word \<Rightarrow> 16 word \<Rightarrow> 16 word \<Rightarrow> bytes \<Rightarrow> bool) \<Rightarrow>
   byte \<Rightarrow> 16 word \<Rightarrow> 16 word \<Rightarrow> 16 word \<Rightarrow> bytes \<Rightarrow> PrivateConfig option" where
  "NewConfigFromSeed rejects k kem kdf aead s =
     (if rejects kem kdf aead s then None
      else Some \<lparr>keyID = k, kemID = kem, kdfID = kdf, aeadID = aead, seed = s\<rparr>)"

text \<open>\<^verbatim>\<open>legacyConfigID := uint8((configID - 128) % 255)\<close>, computed on \<^verbatim>\<open>uint8\<close>.\<close>

definition legacyConfigID :: "byte \<Rightarrow> byte" where
  "legacyConfigID configID = (configID - 128) mod 255"

text \<open>
  \<^verbatim>\<open>seed[len(seed)-1] ^= 0xFF\<close>: the last byte of the slice is updated in place; on an empty
  slice the index is out of range and Go panics (\<open>None\<close>).
\<close>

definition flip_last :: "bytes \<Rightarrow> bytes option" where
  "flip_last s =
     (if s = [] then None
      else Some (s[length s - 1 := (s ! (length s - 1)) XOR 0xFF]))"

text \<open>
  The two configurations \<^verbatim>\<open>main\<close> builds from the configuration id and the seed, primary
  first.  \<open>None\<close> stands for the runs in which \<^verbatim>\<open>main\<close> ends before it serves a request
  (\<^verbatim>\<open>log.Fatalf\<close> on a rejected configuration, the panic of the index expression).
\<close>

definition main_configs ::
  "(16 word \<Rightarrow> 16 word \<Rightarrow> 16 word \<Rightarrow> bytes \<Rightarrow> bool) \<Rightarrow>
   byte \<Rightarrow> bytes \<Rightarrow> (PrivateConfig \<times> PrivateConfig) option" where
  "main_configs rejects configID s =
     (case NewConfigFromSeed rejects configID KEM_X25519_KYBER768_DRAFT00 KDF_HKDF_SHA256
             AEAD_AES128GCM s of
        None \<Rightarrow> None
      | Some config \<Rightarrow>
          (case flip_last s of
             None \<Rightarrow> None
           | Some s' \<Rightarrow>
               (case NewConfigFromSeed rejects (legacyConfigID configID) KEM_X25519_HKDF_SHA256
                       KDF_HKDF_SHA256 AEAD_AES128GCM s' of
                  None \<Rightarrow> None
                | Some legacyConfig \<Rightarrow> Some (config, legacyConfig))))"

section \<open>Errors and status codes\<close>

text \<open>
  The five sentinel errors of the handlers file, compared by identity in the Go code, and
  \<open>ErrOther\<close> for every other error value (the error of the outbound client, by its message).
\<close>

datatype error =
    ErrConfigMismatch
  | ErrEncapsulation
  | ErrPayloadMarshalling
  | ErrGatewayTargetForbidden
  | ErrGatewayInternalServer
  | ErrOther string

abbreviation StatusOK :: nat where "StatusOK \<equiv> 200"
abbreviation StatusBadRequest :: nat where "StatusBadRequest \<equiv> 400"
abbreviation StatusUnauthorized :: nat where "StatusUnauthorized \<equiv> 401"
abbreviation StatusForbidden :: nat where "StatusForbidden \<equiv> 403"
abbreviation StatusInternalServerError :: nat where "StatusInternalServerError \<equiv> 500"

fun ErrEncapsulationToGatewayStatusCode :: "error \<Rightarrow> nat" where
  "ErrEncapsulationToGatewayStatusCode ErrConfigMismatch = StatusUnauthorized"
| "ErrEncapsulationToGatewayStatusCode ErrEncapsulation = StatusBadRequest"
| "ErrEncapsulationToGatewayStatusCode _ = StatusBadRequest"

fun payloadErrorToPayloadStatusCode :: "error \<Rightarrow> nat" where
  "payloadErrorToPayloadStatusCode ErrPayloadMarshalling = StatusBadRequest"
| "payloadErrorToPayloadStatusCode ErrGatewayTargetForbidden = StatusForbidden"
| "payloadErrorToPayloadStatusCode ErrGatewayInternalServer = StatusInternalServerError"
| "payloadErrorToPayloadStatusCode _ = 400"

text \<open>
  \<^verbatim>\<open>http.StatusText\<close> of the standard library.  Of its table the model has the rows of the
  codes that the program names (the gateway passes it 400, 401 and 500 only); for a code
  without a row Go returns the empty string.
\<close>

definition StatusText :: "nat \<Rightarrow> string" where
  "StatusText c =
     (if c = StatusOK then ''OK''
      else if c = StatusBadRequest then ''Bad Request''
      else if c = StatusUnauthorized then ''Unauthorized''
      else if c = StatusForbidden then ''Forbidden''
      else if c = StatusInternalServerError then ''Internal Server Error''
      else [])"

section \<open>Metrics\<close>

abbreviation metricsEventGatewayRequest :: string where
  "metricsEventGatewayRequest \<equiv> ''gateway_request''"
abbreviation metricsEventConfigsRequest :: string where
  "metricsEventConfigsRequest \<equiv> ''configs_request''"
abbreviation metricsResultConfigsUnavalable :: string where
  "metricsResultConfigsUnavalable \<equiv> ''configs_unavailable''"
abbreviation metricsResultInvalidMethod :: string where
  "metricsResultInvalidMethod \<equiv> ''invalid_method''"
abbreviation metricsResultInvalidContentType :: string where
  "metricsResultInvalidContentType \<equiv> ''invalid_content_type''"
abbreviation metricsResultInvalidContent :: string where
  "metricsResultInvalidContent \<equiv> ''invalid_content''"
abbreviation metricsResultConfigurationMismatch :: string where
  "metricsResultConfigurationMismatch \<equiv> ''config_mismatch''"
abbreviation metricsResultDecapsulationFailed :: string where
  "metricsResultDecapsulationFailed \<equiv> ''decapsulation_failed''"
abbreviation metricsResultEncapsulationFailed :: string where
  "metricsResultEncapsulationFailed \<equiv> ''encapsulation_failed''"
abbreviation metricsResultContentDecodingFailed :: string where
  "metricsResultContentDecodingFailed \<equiv> ''content_decode_failed''"
abbreviation metricsResultContentEncodingFailed :: string where
  "metricsResultContentEncodingFailed \<equiv> ''content_encode_failed''"
abbreviation metricsResultRequestTranslationFailed :: string where
  "metricsResultRequestTranslationFailed \<equiv> ''request_translate_failed''"
abbreviation metricsResultResponseTranslationFailed :: string where
  "metricsResultResponseTranslationFailed \<equiv> ''response_translate_failed''"
abbreviation metricsResultTargetRequestForbidden :: string where
  "metricsResultTargetRequestForbidden \<equiv> ''request_forbidden''"
abbreviation metricsResultTargetRequestFailed :: string where
  "metricsResultTargetRequestFailed \<equiv> ''request_failed''"
abbreviation metricsResultSuccess :: string where
  "metricsResultSuccess \<equiv> ''success''"
abbreviation metricsPayloadStatusPrefix :: string where
  "metricsPayloadStatusPrefix \<equiv> ''gateway_payload''"

text \<open>
  The \<^verbatim>\<open>Metrics\<close> interface is declared outside the files at hand; the handlers only call
  \<^verbatim>\<open>Fire\<close> and \<^verbatim>\<open>ResponseStatus\<close> on it.  The bag of one request is modelled by the labels
  fired, in the order of the calls and with repetitions.  \<^verbatim>\<open>ResponseStatus\<close> is the one of
  \<^verbatim>\<open>MockMetrics\<close> in the test file: it fires \<^verbatim>\<open>"%s_response_status_%d"\<close>.  \<^verbatim>\<open>MockMetrics.Fire\<close>
  panics when a label is fired a second time; \<open>fired_twice\<close> is that condition.
\<close>

record Metrics =
  eventName :: string
  resultLabels :: "string list"

definition Create :: "string \<Rightarrow> Metrics" where
  "Create ev = \<lparr>eventName = ev, resultLabels = []\<rparr>"

definition Fire :: "string \<Rightarrow> Metrics \<Rightarrow> Metrics" where
  "Fire result m = m\<lparr>resultLabels := resultLabels m @ [result]\<rparr>"

definition ResponseStatus :: "string \<Rightarrow> nat \<Rightarrow> Metrics \<Rightarrow> Metrics" where
  "ResponseStatus prefix status m =
     Fire (prefix @ ''_response_status_'' @ string_of_nat status) m"

definition fired_twice :: "Metrics \<Rightarrow> bool" where
  "fired_twice m = (\<not> distinct (resultLabels m))"

text \<open>The outcome labels, and the response-status labels of one prefix.\<close>

definition outcome_labels :: "string list" where
  "outcome_labels =
     [metricsResultConfigurationMismatch, metricsResultDecapsulationFailed,
      metricsResultEncapsulationFailed, metricsResultContentDecodingFailed,
      metricsResultContentEncodingFailed, metricsResultRequestTranslationFailed,
      metricsResultResponseTranslationFailed, metricsResultTargetRequestForbidden,
      metricsResultTargetRequestFailed, metricsResultSuccess, metricsResultInvalidMethod,
      metricsResultInvalidContentType, metricsResultInvalidContent]"

definition outcomes_fired :: "Metrics \<Rightarrow> string list" where
  "outcomes_fired m = filter (\<lambda>l. l \<in> set outcome_labels) (resultLabels m)"

definition status_labels_fired :: "string \<Rightarrow> Metrics \<Rightarrow> string list" where
  "status_labels_fired prefix m =
     filter (\<lambda>l. take (length prefix + 17) l = prefix @ ''_response_status_'') (resultLabels m)"

section \<open>The response writer and the request\<close>

text \<open>
  \<^verbatim>\<open>http.ResponseWriter\<close> as the standard library's server and \<^verbatim>\<open>httptest.ResponseRecorder\<close>
  implement it: the first \<^verbatim>\<open>WriteHeader\<close> fixes the status code and the headers sent
  (\<open>sent\<close>), a later one changes nothing; \<^verbatim>\<open>Write\<close> sends status 200 first when no header
  was written.  \<open>header\<close> is the map \<^verbatim>\<open>w.Header()\<close>, which holds what the handler has set.
  Content sniffing is the server's: when \<^verbatim>\<open>Write\<close> sends the header itself, the bytes
  written are not empty and the handler has set no content type and neither a content
  encoding nor a transfer encoding, the response is sent with the content type that
  \<^verbatim>\<open>http.DetectContentType\<close> finds in the bytes; the server adds it to what it sends, not
  to the handler's map.  That function of the standard library is the field \<open>sniff\<close> of
  the writer.  (The server sniffs what is buffered when the header goes out; the one handler
  of this program that sets no content type, the legacy configuration endpoint, writes
  once.)  In this program the only explicit \<^verbatim>\<open>WriteHeader\<close> is the one of \<^verbatim>\<open>http.Error\<close>,
  after it has set a content type.
\<close>

record ResponseWriter =
  header :: "string \<rightharpoonup> string"
  wroteHeader :: bool
  code :: nat
  sent :: "string \<rightharpoonup> string"
  body :: bytes
  sniff :: "bytes \<Rightarrow> string"

definition NewRecorder :: "(bytes \<Rightarrow> string) \<Rightarrow> ResponseWriter" where
  "NewRecorder detect =
     \<lparr>header = Map.empty, wroteHeader = False, code = 200, sent = Map.empty, body = [],
      sniff = detect\<rparr>"

definition Header_Set :: "string \<Rightarrow> string \<Rightarrow> ResponseWriter \<Rightarrow> ResponseWriter" where
  "Header_Set k v w = w\<lparr>header := (header w)(k \<mapsto> v)\<rparr>"

definition Header_Del :: "string \<Rightarrow> ResponseWriter \<Rightarrow> ResponseWriter" where
  "Header_Del k w = w\<lparr>header := (header w)(k := None)\<rparr>"

definition WriteHeader :: "nat \<Rightarrow> ResponseWriter \<Rightarrow> ResponseWriter" where
  "WriteHeader c w =
     (if wroteHeader w then w else w\<lparr>wroteHeader := True, code := c, sent := header w\<rparr>)"

definition sniffs :: "bytes \<Rightarrow> ResponseWriter \<Rightarrow> bool" where
  "sniffs b w =
     (b \<noteq> [] \<and> header w ''Content-Type'' = None \<and>
      (case header w ''Content-Encoding'' of None \<Rightarrow> True | Some v \<Rightarrow> v = []) \<and>
      (case header w ''Transfer-Encoding'' of None \<Rightarrow> True | Some v \<Rightarrow> v = []))"

definition Write :: "bytes \<Rightarrow> ResponseWriter \<Rightarrow> ResponseWriter" where
  "Write b w =
     (let w' =
        (if wroteHeader w then w
         else if sniffs b w
         then (WriteHeader StatusOK w)\<lparr>sent := (header w)(''Content-Type'' \<mapsto> sniff w b)\<rparr>
         else WriteHeader StatusOK w)
      in w'\<lparr>body := body w' @ b\<rparr>)"

text \<open>\<^verbatim>\<open>http.Error\<close>: two headers, the status, and the message followed by a newline.\<close>

definition http_Error :: "string \<Rightarrow> nat \<Rightarrow> ResponseWriter \<Rightarrow> ResponseWriter" where
  "http_Error msg c w =
     Write (bytes_of (msg @ [CHR 0x0A]))
       (WriteHeader c
         (Header_Set ''X-Content-Type-Options'' ''nosniff''
           (Header_Set ''Content-Type'' ''text/plain; charset=utf-8''
             (Header_Del ''Content-Length'' w))))"

text \<open>
  The fields of \<^verbatim>\<open>http.Request\<close> the program reads.  \<open>Body = None\<close> is a body whose reading
  fails.  \<open>Header_Get\<close> is \<^verbatim>\<open>r.Header.Get\<close>: the empty string for a header that is not set.
\<close>

record Request =
  Method :: string
  URLPath :: string
  Host :: string
  Header :: "string \<rightharpoonup> string"
  Body :: "bytes option"

definition Header_Get :: "Request \<Rightarrow> string \<Rightarrow> string" where
  "Header_Get r k = (case Header r k of None \<Rightarrow> [] | Some v \<Rightarrow> v)"

record Response =
  StatusCode :: nat
  RespHeader :: "string \<rightharpoonup> string"
  RespBody :: bytes

section \<open>The OHTTP library, as the program uses it\<close>

record EncapsulatedRequest =
  KeyID :: byte
  reqKemID :: "16 word"
  reqKdfID :: "16 word"
  reqAeadID :: "16 word"
  enc :: bytes
  ct :: bytes

text \<open>
  Modelled from the spec: the encapsulated response of the OHTTP library, whose declaration
  is not among the files; its wire format is the nonce followed by the sealed payload.
\<close>

record EncapsulatedResponse =
  nonce :: bytes
  sealed :: bytes

definition Marshal :: "EncapsulatedResponse \<Rightarrow> bytes" where
  "Marshal r = nonce r @ sealed r"

text \<open>
  The functions of the libraries that the handlers call, taken as parameters.  A result
  \<open>None\<close> is the call's error.  \<open>'ctx\<close> is the library's decapsulation context.
  \<open>MarshalBinaryResponse\<close> is what \<^verbatim>\<open>ohttp.CreateBinaryResponse(res).Write\<close> writes.
\<close>

record 'ctx ohttp =
  UnmarshalEncapsulatedRequest :: "bytes \<Rightarrow> EncapsulatedRequest option"
  EncapsulateResponse :: "'ctx \<Rightarrow> bytes \<Rightarrow> EncapsulatedResponse option"
  UnmarshalBinaryRequest :: "bytes \<Rightarrow> Request option"
  MarshalBinaryResponse :: "Response \<Rightarrow> bytes option"
  DumpRequest :: "Request \<Rightarrow> bytes option"

text \<open>
  The four methods of \<^verbatim>\<open>ohttp.Gateway\<close> that the program calls, taken as parameters as well.
  \<open>Config k\<close> is the public configuration of key id \<open>k\<close> in its marshalled form (the program
  does nothing with it but \<^verbatim>\<open>Marshal\<close>), \<open>None\<close> when the gateway returns an error.
\<close>

record 'ctx Gateway =
  Config :: "byte \<Rightarrow> bytes option"
  MarshalConfigs :: bytes
  MatchesConfig :: "EncapsulatedRequest \<Rightarrow> bool"
  DecapsulateRequest :: "EncapsulatedRequest \<Rightarrow> (bytes \<times> 'ctx) option"

text \<open>
  A stored configuration matches a request when the key id and the three algorithm
  identifiers agree.
\<close>

definition matches_triple :: "PrivateConfig \<Rightarrow> EncapsulatedRequest \<Rightarrow> bool" where
  "matches_triple c req =
     (keyID c = KeyID req \<and> kemID c = reqKemID req \<and> kdfID c = reqKdfID req \<and>
      aeadID c = reqAeadID req)"

text \<open>
  Modelled from the spec: \<^verbatim>\<open>ohttp.NewDefaultGateway\<close>, the spec's ConfigStore, whose code is
  the library's and not among the files.  The store maintains the mapping from key ids to the
  private configurations, kept here in the order given.  \<open>match\<close> selects by exact key id;
  if the triple in the request does not match the stored configuration's triple, it returns
  no match.  \<open>marshal_configs\<close> concatenates the public form of every stored configuration.
  Decapsulation fails when \<open>match\<close> is empty and otherwise opens the sealed payload with the
  selected configuration.  The public form and the HPKE opening are the parameters \<open>public\<close>
  and \<open>hpke_open\<close>.
\<close>

definition lookup_config :: "PrivateConfig list \<Rightarrow> byte \<Rightarrow> PrivateConfig option" where
  "lookup_config cfgs k = find (\<lambda>c. keyID c = k) cfgs"

definition match_config :: "PrivateConfig list \<Rightarrow> EncapsulatedRequest \<Rightarrow> PrivateConfig option"
  where
  "match_config cfgs req =
     (case lookup_config cfgs (KeyID req) of
        None \<Rightarrow> None
      | Some c \<Rightarrow> if matches_triple c req then Some c else None)"

definition NewDefaultGateway ::
  "(PrivateConfig \<Rightarrow> bytes) \<Rightarrow>
   (PrivateConfig \<Rightarrow> EncapsulatedRequest \<Rightarrow> (bytes \<times> 'ctx) option) \<Rightarrow>
   PrivateConfig list \<Rightarrow> 'ctx Gateway" where
  "NewDefaultGateway public hpke_open cfgs =
     \<lparr>Config = (\<lambda>k. map_option public (lookup_config cfgs k)),
      MarshalConfigs = concat (map public cfgs),
      MatchesConfig = (\<lambda>req. match_config cfgs req \<noteq> None),
      DecapsulateRequest =
        (\<lambda>req. case match_config cfgs req of
                  None \<Rightarrow> None
                | Some c \<Rightarrow> hpke_open c req)\<rparr>"

section \<open>The handlers\<close>

text \<open>
  What a handler does besides returning: the labels it fires on the metrics of the request,
  and the requests it sends to a target with the outbound client, in order.
\<close>

record effects =
  metrics :: Metrics
  fetched :: "Request list"

definition fire :: "string \<Rightarrow> effects \<Rightarrow> effects" where
  "fire result e = e\<lparr>metrics := Fire result (metrics e)\<rparr>"

text \<open>
  \<^verbatim>\<open>FilteredHttpRequestHandler\<close>.  \<open>client\<close> is \<^verbatim>\<open>h.client.Do\<close>: the response, or the message of
  the transport error.  \<open>allowedOrigins = None\<close> is the nil map.  Logging is not modelled.
\<close>

record FilteredHttpRequestHandler =
  client :: "Request \<Rightarrow> string + Response"
  allowedOrigins :: "(string \<rightharpoonup> bool) option"
  logForbiddenErrors :: bool

definition client_Do ::
  "FilteredHttpRequestHandler \<Rightarrow> Request \<Rightarrow> effects \<Rightarrow> (error + Response) \<times> effects" where
  "client_Do h req e =
     (let e' = e\<lparr>fetched := fetched e @ [req]\<rparr>
      in case client h req of
           Inl msg \<Rightarrow> (Inl (ErrOther msg), fire metricsResultTargetRequestFailed e')
         | Inr resp \<Rightarrow> (Inr resp, fire metricsResultSuccess e'))"

definition FilteredHttpRequestHandler_Handle ::
  "FilteredHttpRequestHandler \<Rightarrow> Request \<Rightarrow> effects \<Rightarrow> (error + Response) \<times> effects" where
  "FilteredHttpRequestHandler_Handle h req e =
     (case allowedOrigins h of
        None \<Rightarrow> client_Do h req e
      | Some origins \<Rightarrow>
          (case origins (Host req) of
             None \<Rightarrow> (Inl ErrGatewayTargetForbidden, fire metricsResultTargetRequestForbidden e)
           | Some _ \<Rightarrow> client_Do h req e))"

text \<open>
  \<^verbatim>\<open>BinaryHTTPAppHandler.Handle\<close>.  The handler writes the encoded response to the chunk
  writer \<open>e\<close> and returns an error or nil; the model returns the error, or the bytes written.
\<close>

definition BinaryHTTPAppHandler_Handle ::
  "'ctx ohttp \<Rightarrow> FilteredHttpRequestHandler \<Rightarrow> bytes \<Rightarrow> effects \<Rightarrow> (error + bytes) \<times> effects"
  where
  "BinaryHTTPAppHandler_Handle lib httpHandler binaryRequest e =
     (case UnmarshalBinaryRequest lib binaryRequest of
        None \<Rightarrow> (Inl ErrPayloadMarshalling, fire metricsResultContentDecodingFailed e)
      | Some req \<Rightarrow>
          (case FilteredHttpRequestHandler_Handle httpHandler req e of
             (Inl err, e1) \<Rightarrow>
               (if err = ErrGatewayTargetForbidden then (Inl ErrGatewayTargetForbidden, e1)
                else (Inl ErrGatewayInternalServer, e1))
           | (Inr resp, e1) \<Rightarrow>
               (case MarshalBinaryResponse lib resp of
                  None \<Rightarrow> (Inl ErrPayloadMarshalling, fire metricsResultContentEncodingFailed e1)
                | Some b \<Rightarrow> (Inr b, fire (metricsPayloadStatusPrefix @ ''200'') e1))))"

text \<open>
  Modelled from the spec: the echo handler \<^verbatim>\<open>EchoAppHandler\<close>.  The program and the tests use
  it, but the handlers file holds its definition only as a comment, written for an earlier
  signature of the interface.  The spec: it returns the plaintext unmodified and always
  succeeds.  The commented-out code does the same and fires \<^verbatim>\<open>success\<close>, the label that
  \<^verbatim>\<open>TestGatewayHandler\<close> expects of the echo endpoint.
\<close>

definition EchoAppHandler_Handle :: "bytes \<Rightarrow> effects \<Rightarrow> (error + bytes) \<times> effects" where
  "EchoAppHandler_Handle binaryRequest e = (Inr binaryRequest, fire metricsResultSuccess e)"

datatype AppContentHandler =
    BinaryHTTPAppHandler FilteredHttpRequestHandler
  | EchoAppHandler

fun AppContentHandler_Handle ::
  "'ctx ohttp \<Rightarrow> AppContentHandler \<Rightarrow> bytes \<Rightarrow> effects \<Rightarrow> (error + bytes) \<times> effects" where
  "AppContentHandler_Handle lib (BinaryHTTPAppHandler httpHandler) binaryRequest e =
     BinaryHTTPAppHandler_Handle lib httpHandler binaryRequest e"
| "AppContentHandler_Handle lib EchoAppHandler binaryRequest e =
     EchoAppHandler_Handle binaryRequest e"

text \<open>
  \<^verbatim>\<open>DefaultEncapsulationHandler.Handle\<close>.  The source passes an undeclared writer \<^verbatim>\<open>w\<close> to the
  application handler and seals an undeclared \<^verbatim>\<open>binaryResponse\<close>; the model takes the latter to
  be the bytes the application handler wrote.  Every return before that point is as written.
\<close>

definition DefaultEncapsulationHandler_Handle ::
  "'ctx ohttp \<Rightarrow> 'ctx Gateway \<Rightarrow> AppContentHandler \<Rightarrow> Request \<Rightarrow> EncapsulatedRequest \<Rightarrow>
   effects \<Rightarrow> (error + EncapsulatedResponse) \<times> effects" where
  "DefaultEncapsulationHandler_Handle lib g appHandler outerRequest encapsulatedReq e =
     (if \<not> MatchesConfig g encapsulatedReq
      then (Inl ErrConfigMismatch, fire metricsResultConfigurationMismatch e)
      else case DecapsulateRequest g encapsulatedReq of
        None \<Rightarrow> (Inl ErrEncapsulation, fire metricsResultDecapsulationFailed e)
      | Some (binaryRequest, context) \<Rightarrow>
          (case AppContentHandler_Handle lib appHandler binaryRequest e of
             (Inl err, e1) \<Rightarrow> (Inl err, e1)
           | (Inr binaryResponse, e1) \<Rightarrow>
               (case EncapsulateResponse lib context binaryResponse of
                  None \<Rightarrow> (Inl ErrEncapsulation, fire metricsResultEncapsulationFailed e1)
                | Some encapsulatedResponse \<Rightarrow> (Inr encapsulatedResponse, e1))))"

definition MetadataEncapsulationHandler_Handle ::
  "'ctx ohttp \<Rightarrow> 'ctx Gateway \<Rightarrow> Request \<Rightarrow> EncapsulatedRequest \<Rightarrow>
   effects \<Rightarrow> (error + EncapsulatedResponse) \<times> effects" where
  "MetadataEncapsulationHandler_Handle lib g outerRequest encapsulatedReq e =
     (if \<not> MatchesConfig g encapsulatedReq
      then (Inl ErrConfigMismatch, fire metricsResultConfigurationMismatch e)
      else case DecapsulateRequest g encapsulatedReq of
        None \<Rightarrow> (Inl ErrEncapsulation, fire metricsResultDecapsulationFailed e)
      | Some (_, context) \<Rightarrow>
          (case DumpRequest lib outerRequest of
             None \<Rightarrow> (Inl ErrGatewayInternalServer, e)
           | Some binaryResponse \<Rightarrow>
               (case EncapsulateResponse lib context binaryResponse of
                  None \<Rightarrow> (Inl ErrEncapsulation, fire metricsResultEncapsulationFailed e)
                | Some encapsulatedResponse \<Rightarrow>
                    (Inr encapsulatedResponse, fire metricsResultSuccess e))))"

datatype 'ctx EncapsulationHandler =
    DefaultEncapsulationHandler "'ctx Gateway" AppContentHandler
  | MetadataEncapsulationHandler "'ctx Gateway"

fun EncapsulationHandler_Handle ::
  "'ctx ohttp \<Rightarrow> 'ctx EncapsulationHandler \<Rightarrow> Request \<Rightarrow> EncapsulatedRequest \<Rightarrow>
   effects \<Rightarrow> (error + EncapsulatedResponse) \<times> effects" where
  "EncapsulationHandler_Handle lib (DefaultEncapsulationHandler g appHandler) outerRequest req e =
     DefaultEncapsulationHandler_Handle lib g appHandler outerRequest req e"
| "EncapsulationHandler_Handle lib (MetadataEncapsulationHandler g) outerRequest req e =
     MetadataEncapsulationHandler_Handle lib g outerRequest req e"


section \<open>The gateway resource\<close>

abbreviation ohttpRequestContentType :: string where
  "ohttpRequestContentType \<equiv> ''message/ohttp-req''"
abbreviation ohttpResponseContentType :: string where
  "ohttpResponseContentType \<equiv> ''message/ohttp-res''"
abbreviation ohttpChunkedRequestContentType :: string where
  "ohttpChunkedRequestContentType \<equiv> ''message/ohttp-chunked-req''"
abbreviation twelveHours :: nat where "twelveHours \<equiv> 12 * 3600"
abbreviation twentyFourHours :: nat where "twentyFourHours \<equiv> 24 * 3600"
abbreviation MethodPost :: string where "MethodPost \<equiv> ''POST''"

text \<open>
  The metrics factory of the resource creates the bag of a request (\<open>Create\<close>); it has no
  other use and is not a field of the model.  Logging (\<open>verbose\<close>) is not modelled.
\<close>

record 'ctx gatewayResource =
  verbose :: bool
  legacyKeyID :: byte
  gateway :: "'ctx Gateway"
  encapsulationHandlers :: "string \<rightharpoonup> 'ctx EncapsulationHandler"
  debugResponse :: bool

definition httpError ::
  "'ctx gatewayResource \<Rightarrow> ResponseWriter \<Rightarrow> nat \<Rightarrow> string \<Rightarrow> Metrics \<Rightarrow> string \<Rightarrow>
   ResponseWriter \<times> Metrics" where
  "httpError s w status debugMessage m metricsPrefix =
     ((if debugResponse s then http_Error debugMessage status w
       else http_Error (StatusText status) status w),
      ResponseStatus metricsPrefix status m)"

text \<open>The same on the effects of a request, whose metrics it updates.\<close>

definition httpError_fx ::
  "'ctx gatewayResource \<Rightarrow> ResponseWriter \<Rightarrow> nat \<Rightarrow> string \<Rightarrow> effects \<Rightarrow> string \<Rightarrow>
   ResponseWriter \<times> effects" where
  "httpError_fx s w status debugMessage e metricsPrefix =
     (case httpError s w status debugMessage (metrics e) metricsPrefix of
        (w', m') \<Rightarrow> (w', e\<lparr>metrics := m'\<rparr>))"

text \<open>
  \<^verbatim>\<open>ohttpGatewayHandler\<close>.  The source maps the handler's error to the status with a function
  it names \<^verbatim>\<open>encapsulationErrorToGatewayStatusCode\<close>; the handlers file declares that mapping
  under the name \<^verbatim>\<open>ErrEncapsulationToGatewayStatusCode\<close>, which is the one used here.
\<close>

definition ohttpGatewayHandler ::
  "'ctx ohttp \<Rightarrow> 'ctx gatewayResource \<Rightarrow> ResponseWriter \<Rightarrow> Request \<Rightarrow> effects \<Rightarrow>
   ResponseWriter \<times> effects" where
  "ohttpGatewayHandler lib s w r e =
     (case encapsulationHandlers s (URLPath r) of
        None \<Rightarrow> httpError_fx s w StatusBadRequest ''Unknown handler'' e (Method r)
      | Some encapHandler \<Rightarrow>
          (case Body r of
             None \<Rightarrow>
               httpError_fx s w StatusBadRequest ''Reading request body failed''
                 (fire metricsResultInvalidContent e) (Method r)
           | Some encryptedMessageBytes \<Rightarrow>
               (case UnmarshalEncapsulatedRequest lib encryptedMessageBytes of
                  None \<Rightarrow>
                    httpError_fx s w StatusBadRequest ''Reading request body failed''
                      (fire metricsResultInvalidContent e) (Method r)
                | Some encapsulatedReq \<Rightarrow>
                    (case EncapsulationHandler_Handle lib encapHandler r encapsulatedReq e of
                       (Inl err, e1) \<Rightarrow>
                         (let errorCode = ErrEncapsulationToGatewayStatusCode err
                          in httpError_fx s w errorCode (StatusText errorCode) e1 (Method r))
                     | (Inr encapsulatedResp, e1) \<Rightarrow>
                         (let packedResponse = Marshal encapsulatedResp;
                              w1 = Header_Set ''Content-Type'' ohttpResponseContentType w;
                              w2 = Header_Set ''Connection'' ''Keep-Alive'' w1;
                              w3 = Write packedResponse w2
                          in (w3, e1\<lparr>metrics :=
                                      ResponseStatus (Method r) StatusOK (metrics e1)\<rparr>))))))"

definition ohttpChunkedGatewayHandler ::
  "'ctx gatewayResource \<Rightarrow> ResponseWriter \<Rightarrow> Request \<Rightarrow> effects \<Rightarrow> ResponseWriter \<times> effects"
  where
  "ohttpChunkedGatewayHandler s w r e = (w, e)"

text \<open>
  \<^verbatim>\<open>gatewayHandler\<close>.  The branch of a method other than POST returns.  The cases of the
  switch on the content type do not return: after either handler, and when no case matches,
  control reaches the two statements after the switch.
\<close>

definition gatewayHandler ::
  "'ctx ohttp \<Rightarrow> 'ctx gatewayResource \<Rightarrow> ResponseWriter \<Rightarrow> Request \<Rightarrow>
   ResponseWriter \<times> effects" where
  "gatewayHandler lib s w r =
     (let e = \<lparr>metrics = Create metricsEventGatewayRequest, fetched = []\<rparr>
      in if Method r \<noteq> MethodPost
         then httpError_fx s w StatusBadRequest (''Invalid method: '' @ Method r)
                (fire metricsResultInvalidMethod e) (Method r)
         else
           (case (if Header_Get r ''Content-Type'' = ohttpRequestContentType
                  then ohttpGatewayHandler lib s w r e
                  else if Header_Get r ''Content-Type'' = ohttpChunkedRequestContentType
                  then ohttpChunkedGatewayHandler s w r e
                  else (w, e)) of
              (w1, e1) \<Rightarrow>
                httpError_fx s w1 StatusBadRequest
                  (''Invalid content type: '' @ Header_Get r ''Content-Type'')
                  (fire metricsResultInvalidContentType e1) (Method r)))"

text \<open>
  \<^verbatim>\<open>rand.Intn(n)\<close> returns a number of the interval from 0 up to and excluding \<open>n\<close>.  The
  model takes the generator's draw as an argument and reduces it modulo \<open>n\<close>: every number
  of the interval can result, and no other.
\<close>

definition Intn :: "nat \<Rightarrow> nat \<Rightarrow> nat" where
  "Intn n draw = draw mod n"

definition cache_control :: "nat \<Rightarrow> string" where
  "cache_control maxAge = ''max-age='' @ string_of_nat maxAge @ '', private''"

definition legacyConfigHandler ::
  "'ctx gatewayResource \<Rightarrow> nat \<Rightarrow> ResponseWriter \<Rightarrow> Request \<Rightarrow> ResponseWriter \<times> Metrics" where
  "legacyConfigHandler s draw w r =
     (let m = Create metricsEventConfigsRequest
      in case Config (gateway s) (legacyKeyID s) of
           None \<Rightarrow>
             httpError s w StatusInternalServerError ''Config unavailable''
               (Fire metricsResultConfigsUnavalable m) (Method r)
         | Some config \<Rightarrow>
             (let maxAge = twelveHours + Intn twentyFourHours draw;
                  w1 = Header_Set ''Cache-Control'' (cache_control maxAge) w;
                  w2 = Write config w1
              in (w2, ResponseStatus (Method r) StatusOK m)))"

definition configHandler ::
  "'ctx gatewayResource \<Rightarrow> nat \<Rightarrow> ResponseWriter \<Rightarrow> Request \<Rightarrow> ResponseWriter \<times> Metrics" where
  "configHandler s draw w r =
     (let m = Create metricsEventConfigsRequest;
          maxAge = twelveHours + Intn twentyFourHours draw;
          w1 = Header_Set ''Cache-Control'' (cache_control maxAge) w;
          w2 = Header_Set ''Content-Type'' ''application/ohttp-keys'' w1;
          w3 = Write (MarshalConfigs (gateway s)) w2
      in (w3, ResponseStatus (Method r) StatusOK m))"

section \<open>The resource that \<^verbatim>\<open>main\<close> builds\<close>

text \<open>
  The settings \<^verbatim>\<open>main\<close> reads from the environment, as far as the resource depends on them,
  and the outbound client.
\<close>

record settings =
  set_verbose :: bool
  set_debugResponse :: bool
  set_allowedOrigins :: "(string \<rightharpoonup> bool) option"
  set_client :: "Request \<Rightarrow> string + Response"
  gatewayEndpoint :: string
  echoEndpoint :: string
  metadataEndpoint :: string

text \<open>
  \<^verbatim>\<open>main\<close> from the filtered handler to the resource, in the branch of the default labels:
  the gateway is what the library's \<^verbatim>\<open>ohttp.NewDefaultGateway\<close> makes of the primary and the
  legacy configuration, in this order, the three handler chains share it, and the resource
  keeps the legacy key id computed before.  The library's constructor is the parameter
  \<open>newGateway\<close>.  (The branch of the custom labels names \<^verbatim>\<open>ProtoHTTPAppHandler\<close>, of which
  the files hold only commented-out code.)  A later entry of the handler map replaces an
  earlier one of the same path.
\<close>

definition main_resource ::
  "(PrivateConfig list \<Rightarrow> 'ctx Gateway) \<Rightarrow>
   settings \<Rightarrow> PrivateConfig \<Rightarrow> PrivateConfig \<Rightarrow> byte \<Rightarrow> 'ctx gatewayResource" where
  "main_resource newGateway st config legacyConfig legacyID =
     (let httpHandler =
            \<lparr>client = set_client st, allowedOrigins = set_allowedOrigins st,
             logForbiddenErrors = set_verbose st\<rparr>;
          gw = newGateway [config, legacyConfig];
          targetHandler = DefaultEncapsulationHandler gw (BinaryHTTPAppHandler httpHandler);
          echoHandler = DefaultEncapsulationHandler gw EchoAppHandler;
          metadataHandler = MetadataEncapsulationHandler gw;
          handlers =
            [gatewayEndpoint st \<mapsto> targetHandler, echoEndpoint st \<mapsto> echoHandler,
             metadataEndpoint st \<mapsto> metadataHandler]
      in \<lparr>verbose = set_verbose st, legacyKeyID = legacyID, gateway = gw,
          encapsulationHandlers = handlers, debugResponse = set_debugResponse st\<rparr>)"

section \<open>Concrete inputs\<close>

text \<open>
  Inputs at which the theorems below are instantiated.  A library that rejects no
  configuration, and the seed of 32 zero bytes.
\<close>

definition never_rejects :: "16 word \<Rightarrow> 16 word \<Rightarrow> 16 word \<Rightarrow> bytes \<Rightarrow> bool" where
  "never_rejects kem kdf aead s = False"

definition zero_seed :: bytes where
  "zero_seed = [0,0,0,0,0,0,0,0, 0,0,0,0,0,0,0,0, 0,0,0,0,0,0,0,0, 0,0,0,0,0,0,0,0]"

text \<open>
  A gateway in the manner of the test file: the current configuration has key id 1 and the
  hybrid KEM, the legacy one key id 0 and X25519.  The stand-ins for the library are as
  simple as can be: the public form of a configuration is its key id and a mark, a sealed
  payload is the plaintext behind the tag 170 and opening fails on any other tag, the first
  two bytes of a message are the key id and a flag for the KEM, an inner request is one
  byte that names its target host, sealing prepends a nonce, and every content is sniffed
  as \<^verbatim>\<open>application/octet-stream\<close>.
\<close>

definition demo_config :: PrivateConfig where
  "demo_config =
     \<lparr>keyID = 1, kemID = KEM_X25519_KYBER768_DRAFT00, kdfID = KDF_HKDF_SHA256,
      aeadID = AEAD_AES128GCM, seed = [7]\<rparr>"

definition demo_legacy_config :: PrivateConfig where
  "demo_legacy_config =
     \<lparr>keyID = 0, kemID = KEM_X25519_HKDF_SHA256, kdfID = KDF_HKDF_SHA256,
      aeadID = AEAD_AES128GCM, seed = [248]\<rparr>"

definition demo_public :: "PrivateConfig \<Rightarrow> bytes" where
  "demo_public c = [keyID c, 42]"

definition demo_open :: "PrivateConfig \<Rightarrow> EncapsulatedRequest \<Rightarrow> (bytes \<times> unit) option" where
  "demo_open c req =
     (case ct req of
        [] \<Rightarrow> None
      | t # m \<Rightarrow> if t = 170 then Some (m, ()) else None)"

definition demo_detect :: "bytes \<Rightarrow> string" where
  "demo_detect b = ''application/octet-stream''"

definition demo_gateway :: "unit Gateway" where
  "demo_gateway = NewDefaultGateway demo_public demo_open [demo_config, demo_legacy_config]"

definition demo_parse :: "bytes \<Rightarrow> EncapsulatedRequest option" where
  "demo_parse b =
     (case b of
        k # x # rest \<Rightarrow>
          Some \<lparr>KeyID = k,
                reqKemID = (if x = 0 then KEM_X25519_HKDF_SHA256
                            else KEM_X25519_KYBER768_DRAFT00),
                reqKdfID = KDF_HKDF_SHA256, reqAeadID = AEAD_AES128GCM, enc = [], ct = rest\<rparr>
      | _ \<Rightarrow> None)"

definition demo_target :: "string \<Rightarrow> Request" where
  "demo_target h =
     \<lparr>Method = ''GET'', URLPath = ''/'', Host = h, Header = Map.empty, Body = Some []\<rparr>"

definition demo_decode :: "bytes \<Rightarrow> Request option" where
  "demo_decode b =
     (if b = [1] then Some (demo_target ''allowed.example'')
      else if b = [2] then Some (demo_target ''forbidden.example'')
      else if b = [3] then Some (demo_target ''down.example'')
      else None)"

definition demo_lib :: "unit ohttp" where
  "demo_lib =
     \<lparr>UnmarshalEncapsulatedRequest = demo_parse,
      EncapsulateResponse = (\<lambda>context b. Some \<lparr>nonce = [9], sealed = b\<rparr>),
      UnmarshalBinaryRequest = demo_decode,
      MarshalBinaryResponse = (\<lambda>resp. Some (RespBody resp)),
      DumpRequest = (\<lambda>r. Some (bytes_of (Method r)))\<rparr>"

definition demo_client :: "Request \<Rightarrow> string + Response" where
  "demo_client req =
     (if Host req = ''down.example'' then Inl ''connection refused''
      else Inr \<lparr>StatusCode = 200, RespHeader = Map.empty, RespBody = [5]\<rparr>)"

definition demo_filter :: FilteredHttpRequestHandler where
  "demo_filter =
     \<lparr>client = demo_client,
      allowedOrigins = Some [''allowed.example'' \<mapsto> True, ''down.example'' \<mapsto> True],
      logForbiddenErrors = False\<rparr>"

definition demo_unfiltered :: FilteredHttpRequestHandler where
  "demo_unfiltered = \<lparr>client = demo_client, allowedOrigins = None, logForbiddenErrors = False\<rparr>"

definition demo_resource :: "unit gatewayResource" where
  "demo_resource =
     \<lparr>verbose = False, legacyKeyID = 0, gateway = demo_gateway,
      encapsulationHandlers =
        [''/gateway'' \<mapsto> DefaultEncapsulationHandler demo_gateway (BinaryHTTPAppHandler demo_filter),
         ''/gateway-echo'' \<mapsto> DefaultEncapsulationHandler demo_gateway EchoAppHandler,
         ''/gateway-metadata'' \<mapsto> MetadataEncapsulationHandler demo_gateway],
      debugResponse = False\<rparr>"

definition demo_request :: "string \<Rightarrow> string \<Rightarrow> string \<Rightarrow> bytes \<Rightarrow> Request" where
  "demo_request m p t b =
     \<lparr>Method = m, URLPath = p, Host = ''gateway.example'', Header = [''Content-Type'' \<mapsto> t],
      Body = Some b\<rparr>"

definition demo_encapsulated :: "byte \<Rightarrow> 16 word \<Rightarrow> bytes \<Rightarrow> EncapsulatedRequest" where
  "demo_encapsulated k kem c =
     \<lparr>KeyID = k, reqKemID = kem, reqKdfID = KDF_HKDF_SHA256, reqAeadID = AEAD_AES128GCM,
      enc = [], ct = c\<rparr>"

definition demo_settings :: settings where
  "demo_settings =
     \<lparr>set_verbose = False, set_debugResponse = False,
      set_allowedOrigins = Some [''allowed.example'' \<mapsto> True, ''down.example'' \<mapsto> True],
      set_client = demo_client, gatewayEndpoint = ''/gateway'',
      echoEndpoint = ''/gateway-echo'', metadataEndpoint = ''/gateway-metadata''\<rparr>"

definition no_effects :: effects where
  "no_effects = \<lparr>metrics = Create metricsEventGatewayRequest, fetched = []\<rparr>"

definition demo_get :: "string \<Rightarrow> Request" where
  "demo_get p =
     \<lparr>Method = ''GET'', URLPath = p, Host = ''gateway.example'', Header = Map.empty,
      Body = Some []\<rparr>"

text \<open>A resource whose legacy key id is not a key id of its gateway.\<close>

definition demo_resource_without_legacy :: "unit gatewayResource" where
  "demo_resource_without_legacy = demo_resource\<lparr>legacyKeyID := 77\<rparr>"

text \<open>
  The resource that \<^verbatim>\<open>main\<close> builds from the configuration id 1, the seed of 32 zero bytes
  and these settings, with the gateway above as the library's.
\<close>

definition demo_main_config :: PrivateConfig where
  "demo_main_config =
     \<lparr>keyID = 1, kemID = KEM_X25519_KYBER768_DRAFT00, kdfID = KDF_HKDF_SHA256,
      aeadID = AEAD_AES128GCM, seed = zero_seed\<rparr>"

definition demo_main_legacy :: PrivateConfig where
  "demo_main_legacy =
     \<lparr>keyID = 129, kemID = KEM_X25519_HKDF_SHA256, kdfID = KDF_HKDF_SHA256,
      aeadID = AEAD_AES128GCM, seed = butlast zero_seed @ [255]\<rparr>"

definition demo_main_resource :: "unit gatewayResource" where
  "demo_main_resource =
     main_resource (NewDefaultGateway demo_public demo_open) demo_settings demo_main_config
       demo_main_legacy (legacyConfigID 1)"

section \<open>Properties\<close>

subsection \<open>Unfolding and evaluation\<close>

lemmas demo_defs = demo_config_def demo_legacy_config_def demo_public_def demo_open_def
  demo_gateway_def demo_parse_def demo_target_def demo_decode_def demo_lib_def demo_client_def
  demo_filter_def demo_encapsulated_def demo_unfiltered_def demo_resource_def
  demo_request_def no_effects_def demo_detect_def NewDefaultGateway_def lookup_config_def
  match_config_def matches_triple_def
  KEM_X25519_HKDF_SHA256_def KEM_X25519_KYBER768_DRAFT00_def KDF_HKDF_SHA256_def
  AEAD_AES128GCM_def

lemmas handler_defs = gatewayHandler_def ohttpGatewayHandler_def ohttpChunkedGatewayHandler_def
  DefaultEncapsulationHandler_Handle_def MetadataEncapsulationHandler_Handle_def
  BinaryHTTPAppHandler_Handle_def FilteredHttpRequestHandler_Handle_def client_Do_def
  EchoAppHandler_Handle_def httpError_fx_def httpError_def http_Error_def Write_def
  WriteHeader_def sniffs_def Header_Set_def Header_Del_def Header_Get_def fire_def Fire_def
  ResponseStatus_def Create_def NewRecorder_def Marshal_def StatusText_def

lemma string_of_nat_200: "string_of_nat 200 = ''200''"
  by (simp add: string_of_nat.simps digit_def)
lemma string_of_nat_400: "string_of_nat 400 = ''400''"
  by (simp add: string_of_nat.simps digit_def)
lemma string_of_nat_401: "string_of_nat 401 = ''401''"
  by (simp add: string_of_nat.simps digit_def)
lemma string_of_nat_500: "string_of_nat 500 = ''500''"
  by (simp add: string_of_nat.simps digit_def)

lemmas status_strings = string_of_nat_200 string_of_nat_400 string_of_nat_401 string_of_nat_500

lemma code_http_Error: "code (http_Error msg c w) = (if wroteHeader w then code w else c)"
  by (simp add: http_Error_def Write_def WriteHeader_def sniffs_def Header_Set_def Header_Del_def Let_def)

lemma wroteHeader_http_Error: "wroteHeader (http_Error msg c w)"
  by (simp add: http_Error_def Write_def WriteHeader_def sniffs_def Header_Set_def Header_Del_def Let_def)

lemma body_http_Error: "body (http_Error msg c w) = body w @ bytes_of (msg @ [CHR 0x0A])"
  by (simp add: http_Error_def Write_def WriteHeader_def sniffs_def Header_Set_def Header_Del_def Let_def)

lemma sent_http_Error:
  "sent (http_Error msg c w) =
     (if wroteHeader w then sent w
      else (header w)(''Content-Length'' := None,
             ''Content-Type'' \<mapsto> ''text/plain; charset=utf-8'',
             ''X-Content-Type-Options'' \<mapsto> ''nosniff''))"
  by (simp add: http_Error_def Write_def WriteHeader_def sniffs_def Header_Set_def Header_Del_def Let_def)

lemma fst_httpError:
  "fst (httpError s w c msg m p) =
     http_Error (if debugResponse s then msg else StatusText c) c w"
  by (simp add: httpError_def)

lemma snd_httpError: "snd (httpError s w c msg m p) = ResponseStatus p c m"
  by (simp add: httpError_def)

lemma fst_httpError_fx:
  "fst (httpError_fx s w c msg e p) =
     http_Error (if debugResponse s then msg else StatusText c) c w"
  by (simp add: httpError_fx_def httpError_def)

lemma snd_httpError_fx:
  "snd (httpError_fx s w c msg e p) = e\<lparr>metrics := ResponseStatus p c (metrics e)\<rparr>"
  by (simp add: httpError_fx_def httpError_def)

lemma labels_ResponseStatus:
  "resultLabels (ResponseStatus p c m) =
     resultLabels m @ [p @ ''_response_status_'' @ string_of_nat c]"
  by (simp add: ResponseStatus_def Fire_def)

lemma labels_Fire: "resultLabels (Fire l m) = resultLabels m @ [l]"
  by (simp add: Fire_def)

lemma metrics_fire: "metrics (fire l e) = Fire l (metrics e)"
  by (simp add: fire_def)

lemma fetched_fire: "fetched (fire l e) = fetched e"
  by (simp add: fire_def)

subsection \<open>The derivation of the legacy configuration\<close>

lemma flip_last_eq: "s \<noteq> [] \<Longrightarrow> flip_last s = Some (butlast s @ [last s XOR 0xFF])"
proof -
  assume ne: "s \<noteq> []"
  then have s: "s = butlast s @ [last s]" by simp
  have "s[length s - 1 := (s ! (length s - 1)) XOR 0xFF] = butlast s @ [last s XOR 0xFF]"
    using ne
    by (subst (1) s) (simp add: last_conv_nth list_update_append)
  with ne show ?thesis by (simp add: flip_last_def)
qed

lemma unat_legacyConfigID: "unat (legacyConfigID k) = ((unat k + 128) mod 256) mod 255"
proof -
  have "k - 128 = k + 128" by simp
  then have "unat (k - 128) = unat (k + 128)" by (rule arg_cong)
  also have "\<dots> = (unat k + 128) mod 256" by (simp add: unat_word_ariths)
  finally show ?thesis
    by (simp add: legacyConfigID_def unat_mod)
qed

text \<open>
  C5, as amended.  For every primary key id \<open>k\<close> and every non-empty seed \<open>s\<close> (a seed of 32
  bytes in particular) that the library accepts, \<^verbatim>\<open>main\<close> derives the primary configuration
  from \<open>k\<close> and \<open>s\<close> and a legacy configuration whose KEM is X25519-HKDF-SHA256, whose seed
  is \<open>s\<close> with its last byte XORed with 0xFF, and whose key id is \<open>(k - 128) mod 255\<close>
  computed on 8-bit unsigned integers: the subtraction wraps around modulo 256 before the
  remainder is taken, so the key id is \<open>((k + 128) mod 256) mod 255\<close>.  The derivation is a
  function of \<open>k\<close> and \<open>s\<close>.
\<close>

theorem legacy_config_derivation:
  assumes "s \<noteq> []"
    and "\<not> rejects KEM_X25519_KYBER768_DRAFT00 KDF_HKDF_SHA256 AEAD_AES128GCM s"
    and "\<not> rejects KEM_X25519_HKDF_SHA256 KDF_HKDF_SHA256 AEAD_AES128GCM
            (butlast s @ [last s XOR 0xFF])"
  shows "main_configs rejects k s =
           Some (\<lparr>keyID = k, kemID = KEM_X25519_KYBER768_DRAFT00, kdfID = KDF_HKDF_SHA256,
                   aeadID = AEAD_AES128GCM, seed = s\<rparr>,
                 \<lparr>keyID = legacyConfigID k, kemID = KEM_X25519_HKDF_SHA256,
                   kdfID = KDF_HKDF_SHA256, aeadID = AEAD_AES128GCM,
                   seed = butlast s @ [last s XOR 0xFF]\<rparr>)
         \<and> unat (legacyConfigID k) = ((unat k + 128) mod 256) mod 255"
  using assms
  by (simp add: main_configs_def NewConfigFromSeed_def flip_last_eq unat_legacyConfigID)

theorem legacy_config_derivation_witness:
  "main_configs never_rejects 0 zero_seed =
     Some (\<lparr>keyID = 0, kemID = KEM_X25519_KYBER768_DRAFT00, kdfID = KDF_HKDF_SHA256,
             aeadID = AEAD_AES128GCM, seed = zero_seed\<rparr>,
           \<lparr>keyID = 128, kemID = KEM_X25519_HKDF_SHA256,
             kdfID = KDF_HKDF_SHA256, aeadID = AEAD_AES128GCM,
             seed = butlast zero_seed @ [255]\<rparr>)
   \<and> unat (legacyConfigID 0) = 128"
  using legacy_config_derivation [of zero_seed never_rejects 0]
  by (simp add: never_rejects_def zero_seed_def legacyConfigID_def)

text \<open>
  C5 as stated fails at the primary key id 0 (the default of \<^verbatim>\<open>CONFIGURATION_ID\<close>): the
  legacy key id that \<^verbatim>\<open>main\<close> derives is 128, while \<open>(0 - 128) mod 255\<close> is 127.
\<close>

theorem legacy_key_id_counterexample:
  "map_option (\<lambda>p. uint (keyID (snd p))) (main_configs never_rejects 0 zero_seed) = Some 128
   \<and> ((0::int) - 128) mod 255 = 127"
  by (simp add: main_configs_def NewConfigFromSeed_def flip_last_def never_rejects_def
      zero_seed_def legacyConfigID_def)

subsection \<open>Method and content type\<close>

text \<open>
  C4.  At a gateway endpoint, a request whose method is not POST gets the status 400 and
  fires \<^verbatim>\<open>invalid_method\<close>; a POST whose content type is anything but \<^verbatim>\<open>message/ohttp-req\<close>,
  the reserved \<^verbatim>\<open>message/ohttp-chunked-req\<close> included, gets the status 400 and fires
  \<^verbatim>\<open>invalid_content_type\<close>.  In both cases the bag holds that label and one status label.
\<close>

theorem method_and_content_type:
  assumes "\<not> wroteHeader w"
  shows "(Method r \<noteq> MethodPost \<longrightarrow>
            code (fst (gatewayHandler lib s w r)) = StatusBadRequest \<and>
            resultLabels (metrics (snd (gatewayHandler lib s w r))) =
              [metricsResultInvalidMethod, Method r @ ''_response_status_400''])
       \<and> (Method r = MethodPost \<and> Header_Get r ''Content-Type'' \<noteq> ohttpRequestContentType \<longrightarrow>
            code (fst (gatewayHandler lib s w r)) = StatusBadRequest \<and>
            resultLabels (metrics (snd (gatewayHandler lib s w r))) =
              [metricsResultInvalidContentType, ''POST_response_status_400''])"
  using assms
  by (simp add: gatewayHandler_def ohttpChunkedGatewayHandler_def fst_httpError_fx
      snd_httpError_fx code_http_Error labels_ResponseStatus metrics_fire labels_Fire Create_def
      string_of_nat_400 Let_def)

theorem method_and_content_type_witness:
  "code (fst (gatewayHandler demo_lib demo_resource (NewRecorder demo_detect)
      (demo_request ''GET'' ''/gateway-echo'' ''message/ohttp-req'' [1, 1, 170, 2]))) = 400
   \<and> resultLabels (metrics (snd (gatewayHandler demo_lib demo_resource (NewRecorder demo_detect)
      (demo_request ''GET'' ''/gateway-echo'' ''message/ohttp-req'' [1, 1, 170, 2])))) =
       [''invalid_method'', ''GET_response_status_400'']
   \<and> code (fst (gatewayHandler demo_lib demo_resource (NewRecorder demo_detect)
      (demo_request ''POST'' ''/gateway'' ''message/ohttp-chunked-req'' [1, 1, 170, 2]))) = 400
   \<and> resultLabels (metrics (snd (gatewayHandler demo_lib demo_resource (NewRecorder demo_detect)
      (demo_request ''POST'' ''/gateway'' ''message/ohttp-chunked-req'' [1, 1, 170, 2])))) =
       [''invalid_content_type'', ''POST_response_status_400'']"
  using
    method_and_content_type [where w = "NewRecorder demo_detect" and lib = demo_lib and s = demo_resource
      and r = "demo_request ''GET'' ''/gateway-echo'' ''message/ohttp-req'' [1, 1, 170, 2]"]
    method_and_content_type [where w = "NewRecorder demo_detect" and lib = demo_lib and s = demo_resource
      and r = "demo_request ''POST'' ''/gateway'' ''message/ohttp-chunked-req'' [1, 1, 170, 2]"]
  by (simp add: demo_request_def NewRecorder_def Header_Get_def)

subsection \<open>Configuration mismatch and failed decapsulation\<close>



text \<open>What the frontend does with a dispatched request whose handler returns an error.\<close>

lemma gatewayHandler_error:
  assumes "Method r = MethodPost"
    and "Header_Get r ''Content-Type'' = ohttpRequestContentType"
    and "encapsulationHandlers s (URLPath r) = Some h"
    and "Body r = Some b"
    and "UnmarshalEncapsulatedRequest lib b = Some req"
    and "EncapsulationHandler_Handle lib h r req
           \<lparr>metrics = Create metricsEventGatewayRequest, fetched = []\<rparr> = (Inl err, e1)"
  shows "gatewayHandler lib s w r =
           httpError_fx s
             (fst (httpError_fx s w (ErrEncapsulationToGatewayStatusCode err)
                    (StatusText (ErrEncapsulationToGatewayStatusCode err)) e1 MethodPost))
             StatusBadRequest ''Invalid content type: message/ohttp-req''
             (fire metricsResultInvalidContentType
               (snd (httpError_fx s w (ErrEncapsulationToGatewayStatusCode err)
                      (StatusText (ErrEncapsulationToGatewayStatusCode err)) e1 MethodPost)))
             MethodPost"
  using assms
  by (simp add: gatewayHandler_def ohttpGatewayHandler_def Let_def split: prod.splits)










subsection \<open>Inner failures at the frontend\<close>

text \<open>
  C1.  The claim: when the request decapsulates and the application handler fails with
  \<^verbatim>\<open>ErrPayloadMarshalling\<close>, \<^verbatim>\<open>ErrGatewayTargetForbidden\<close> or \<^verbatim>\<open>ErrGatewayInternalServer\<close>, the gateway
  seals an inner response of status 400, 403 or 500 and answers 200.  The code does not:
  \<^verbatim>\<open>DefaultEncapsulationHandler.Handle\<close> returns the error unsealed, and the frontend maps it
  to the outer status 400 and writes the plain error text.  The comments of the handlers
  file and \<^verbatim>\<open>TestGatewayHandlerProtoHTTPRequestWithForbiddenTarget\<close> say what the claim says.
\<close>

theorem inner_failure_outer_status:
  assumes "\<not> wroteHeader w"
    and "Method r = MethodPost"
    and "Header_Get r ''Content-Type'' = ohttpRequestContentType"
    and "encapsulationHandlers s (URLPath r) = Some (DefaultEncapsulationHandler g appHandler)"
    and "Body r = Some b"
    and "UnmarshalEncapsulatedRequest lib b = Some req"
    and "MatchesConfig g req"
    and "DecapsulateRequest g req = Some (binaryRequest, ctx)"
    and "AppContentHandler_Handle lib appHandler binaryRequest
           \<lparr>metrics = Create metricsEventGatewayRequest, fetched = []\<rparr> = (Inl err, e1)"
    and "err = ErrPayloadMarshalling \<or> err = ErrGatewayTargetForbidden \<or>
         err = ErrGatewayInternalServer"
  shows "code (fst (gatewayHandler lib s w r)) = StatusBadRequest
       \<and> sent (fst (gatewayHandler lib s w r)) ''Content-Type'' =
           Some ''text/plain; charset=utf-8''
       \<and> body (fst (gatewayHandler lib s w r)) =
           body w @ bytes_of (''Bad Request'' @ [CHR 0x0A]) @
           bytes_of ((if debugResponse s then ''Invalid content type: message/ohttp-req''
                      else ''Bad Request'') @ [CHR 0x0A])"
proof -
  have h: "EncapsulationHandler_Handle lib (DefaultEncapsulationHandler g appHandler) r req
             \<lparr>metrics = Create metricsEventGatewayRequest, fetched = []\<rparr> = (Inl err, e1)"
    using assms(7-9) by (simp add: DefaultEncapsulationHandler_Handle_def)
  have c: "ErrEncapsulationToGatewayStatusCode err = StatusBadRequest"
    using assms(10) by auto
  show ?thesis
    using assms(1)
    by (simp add: gatewayHandler_error [OF assms(2-6) h] c fst_httpError_fx code_http_Error
        wroteHeader_http_Error sent_http_Error body_http_Error StatusText_def)
qed

theorem inner_failure_outer_status_witness:
  "AppContentHandler_Handle demo_lib (BinaryHTTPAppHandler demo_filter) [2] no_effects =
     (Inl ErrGatewayTargetForbidden, fire metricsResultTargetRequestForbidden no_effects)
   \<and> payloadErrorToPayloadStatusCode ErrGatewayTargetForbidden = 403
   \<and> code (fst (gatewayHandler demo_lib demo_resource (NewRecorder demo_detect)
        (demo_request ''POST'' ''/gateway'' ''message/ohttp-req'' [1, 1, 170, 2]))) = 400
   \<and> sent (fst (gatewayHandler demo_lib demo_resource (NewRecorder demo_detect)
        (demo_request ''POST'' ''/gateway'' ''message/ohttp-req'' [1, 1, 170, 2]))) ''Content-Type'' =
       Some ''text/plain; charset=utf-8''
   \<and> body (fst (gatewayHandler demo_lib demo_resource (NewRecorder demo_detect)
        (demo_request ''POST'' ''/gateway'' ''message/ohttp-req'' [1, 1, 170, 2]))) =
       bytes_of (''Bad Request'' @ [CHR 0x0A]) @ bytes_of (''Bad Request'' @ [CHR 0x0A])"
proof -
  have a: "AppContentHandler_Handle demo_lib (BinaryHTTPAppHandler demo_filter) [2]
             \<lparr>metrics = Create metricsEventGatewayRequest, fetched = []\<rparr> =
           (Inl ErrGatewayTargetForbidden, fire metricsResultTargetRequestForbidden no_effects)"
    by (simp add: demo_defs BinaryHTTPAppHandler_Handle_def
        FilteredHttpRequestHandler_Handle_def)
  show ?thesis
    using a
      inner_failure_outer_status [where w = "NewRecorder demo_detect" and lib = demo_lib
        and s = demo_resource and g = demo_gateway
        and appHandler = "BinaryHTTPAppHandler demo_filter"
        and r = "demo_request ''POST'' ''/gateway'' ''message/ohttp-req'' [1, 1, 170, 2]"
        and b = "[1, 1, 170, 2]" and binaryRequest = "[2]" and ctx = "()"
        and req = "\<lparr>KeyID = 1, reqKemID = KEM_X25519_KYBER768_DRAFT00,
                     reqKdfID = KDF_HKDF_SHA256, reqAeadID = AEAD_AES128GCM, enc = [],
                     ct = [170, 2]\<rparr>", OF _ _ _ _ _ _ _ _ a]
    by (simp add: demo_defs NewRecorder_def Header_Get_def)
qed

subsection \<open>The labels of a dispatched request\<close>

text \<open>
  C3.  The claim: every request fires exactly one outcome label and one status label, and
  a dispatched POST that succeeds fires neither \<^verbatim>\<open>invalid_content_type\<close> nor a 400 status
  label.  The code does not: the cases of the switch in \<^verbatim>\<open>gatewayHandler\<close> do not return, so
  every POST with the content type \<^verbatim>\<open>message/ohttp-req\<close> fires, after the labels of its own
  outcome, \<^verbatim>\<open>invalid_content_type\<close> and \<^verbatim>\<open>POST_response_status_400\<close>.
\<close>

theorem dispatched_post_labels:
  assumes "Method r = MethodPost"
    and "Header_Get r ''Content-Type'' = ohttpRequestContentType"
  shows "\<exists>ls. resultLabels (metrics (snd (gatewayHandler lib s w r))) =
           ls @ [metricsResultInvalidContentType, ''POST_response_status_400'']"
  using assms
  by (simp add: gatewayHandler_def snd_httpError_fx labels_ResponseStatus metrics_fire
      labels_Fire string_of_nat_400 Let_def split: prod.splits)

theorem dispatched_post_labels_witness:
  "resultLabels (metrics (snd (gatewayHandler demo_lib demo_resource (NewRecorder demo_detect)
      (demo_request ''POST'' ''/gateway-metadata'' ''message/ohttp-req'' [1, 1, 170, 2])))) =
     [''success'', ''POST_response_status_200''] @
     [''invalid_content_type'', ''POST_response_status_400'']
   \<and> code (fst (gatewayHandler demo_lib demo_resource (NewRecorder demo_detect)
      (demo_request ''POST'' ''/gateway-metadata'' ''message/ohttp-req'' [1, 1, 170, 2]))) = 200
   \<and> outcomes_fired (metrics (snd (gatewayHandler demo_lib demo_resource (NewRecorder demo_detect)
      (demo_request ''POST'' ''/gateway-metadata'' ''message/ohttp-req'' [1, 1, 170, 2])))) =
     [''success'', ''invalid_content_type'']
   \<and> status_labels_fired ''POST'' (metrics (snd (gatewayHandler demo_lib demo_resource (NewRecorder demo_detect)
      (demo_request ''POST'' ''/gateway-metadata'' ''message/ohttp-req'' [1, 1, 170, 2])))) =
     [''POST_response_status_200'', ''POST_response_status_400'']"
proof -
  have l: "resultLabels (metrics (snd (gatewayHandler demo_lib demo_resource (NewRecorder demo_detect)
      (demo_request ''POST'' ''/gateway-metadata'' ''message/ohttp-req'' [1, 1, 170, 2])))) =
     [''success'', ''POST_response_status_200'', ''invalid_content_type'',
      ''POST_response_status_400'']"
    using dispatched_post_labels [where lib = demo_lib and s = demo_resource
      and w = "NewRecorder demo_detect"
      and r = "demo_request ''POST'' ''/gateway-metadata'' ''message/ohttp-req'' [1, 1, 170, 2]"]
    by (simp add: demo_defs handler_defs status_strings)
  have c: "code (fst (gatewayHandler demo_lib demo_resource (NewRecorder demo_detect)
      (demo_request ''POST'' ''/gateway-metadata'' ''message/ohttp-req'' [1, 1, 170, 2]))) = 200"
    by (simp add: demo_defs handler_defs status_strings)
  show ?thesis
    using l c by (simp add: outcomes_fired_def status_labels_fired_def outcome_labels_def)
qed

text \<open>
  A dispatched request whose decapsulation fails fires the label of the status 400 twice,
  which \<^verbatim>\<open>MockMetrics\<close> answers with a panic.
\<close>

lemma decapsulation_failure_fires_twice:
  "resultLabels (metrics (snd (gatewayHandler demo_lib demo_resource (NewRecorder demo_detect)
      (demo_request ''POST'' ''/gateway-echo'' ''message/ohttp-req'' [1, 1, 85, 2])))) =
     [''decapsulation_failed'', ''POST_response_status_400'', ''invalid_content_type'',
      ''POST_response_status_400'']
   \<and> fired_twice (metrics (snd (gatewayHandler demo_lib demo_resource (NewRecorder demo_detect)
      (demo_request ''POST'' ''/gateway-echo'' ''message/ohttp-req'' [1, 1, 85, 2]))))"
  by (simp add: demo_defs handler_defs status_strings fired_twice_def)

subsection \<open>The allowlist and the outbound fetch\<close>

text \<open>
  What the two handlers do.  When the allowlist is present and the host of the inner request
  is not a key of it, the filtered handler fails with \<^verbatim>\<open>ErrGatewayTargetForbidden\<close>, fires
  \<^verbatim>\<open>request_forbidden\<close> and sends nothing, and the application handler passes that error on.
  When the allowlist is absent, no host is forbidden and the request is sent.  When the
  request is sent and the client fails, the application handler returns
  \<^verbatim>\<open>ErrGatewayInternalServer\<close>.
\<close>

lemma filtered_handler_allowlist:
  "(allowedOrigins h = Some origins \<and> origins (Host req) = None \<longrightarrow>
      FilteredHttpRequestHandler_Handle h req e =
        (Inl ErrGatewayTargetForbidden, fire metricsResultTargetRequestForbidden e) \<and>
      fetched (snd (FilteredHttpRequestHandler_Handle h req e)) = fetched e)
   \<and> (allowedOrigins h = Some origins \<and> origins (Host req) = None \<and>
      UnmarshalBinaryRequest lib b = Some req \<longrightarrow>
      BinaryHTTPAppHandler_Handle lib h b e =
        (Inl ErrGatewayTargetForbidden, fire metricsResultTargetRequestForbidden e))
   \<and> (allowedOrigins h = None \<longrightarrow>
      fst (FilteredHttpRequestHandler_Handle h req e) \<noteq> Inl ErrGatewayTargetForbidden \<and>
      fetched (snd (FilteredHttpRequestHandler_Handle h req e)) = fetched e @ [req])
   \<and> (UnmarshalBinaryRequest lib b = Some req \<and>
      (allowedOrigins h = None \<or>
       (\<exists>origins. allowedOrigins h = Some origins \<and> origins (Host req) \<noteq> None)) \<and>
      client h req = Inl msg \<longrightarrow>
      BinaryHTTPAppHandler_Handle lib h b e =
        (Inl ErrGatewayInternalServer,
         fire metricsResultTargetRequestFailed (e\<lparr>fetched := fetched e @ [req]\<rparr>)))"
  by (auto simp add: FilteredHttpRequestHandler_Handle_def BinaryHTTPAppHandler_Handle_def
      client_Do_def Let_def fire_def split: sum.splits option.splits)

lemma filtered_handler_allowlist_at_inputs:
  "FilteredHttpRequestHandler_Handle demo_filter (demo_target ''forbidden.example'') no_effects =
     (Inl ErrGatewayTargetForbidden, fire metricsResultTargetRequestForbidden no_effects)
   \<and> fetched (snd (FilteredHttpRequestHandler_Handle demo_filter
        (demo_target ''forbidden.example'') no_effects)) = []
   \<and> BinaryHTTPAppHandler_Handle demo_lib demo_filter [2] no_effects =
       (Inl ErrGatewayTargetForbidden, fire metricsResultTargetRequestForbidden no_effects)
   \<and> fst (FilteredHttpRequestHandler_Handle demo_unfiltered
        (demo_target ''forbidden.example'') no_effects) \<noteq> Inl ErrGatewayTargetForbidden
   \<and> fetched (snd (FilteredHttpRequestHandler_Handle demo_unfiltered
        (demo_target ''forbidden.example'') no_effects)) = [demo_target ''forbidden.example'']
   \<and> BinaryHTTPAppHandler_Handle demo_lib demo_filter [3] no_effects =
       (Inl ErrGatewayInternalServer,
        fire metricsResultTargetRequestFailed
          (no_effects\<lparr>fetched := [demo_target ''down.example'']\<rparr>))"
proof -
  have forbidden:
    "FilteredHttpRequestHandler_Handle demo_filter (demo_target ''forbidden.example'')
       no_effects =
       (Inl ErrGatewayTargetForbidden, fire metricsResultTargetRequestForbidden no_effects)
     \<and> fetched (snd (FilteredHttpRequestHandler_Handle demo_filter
          (demo_target ''forbidden.example'') no_effects)) = fetched no_effects
     \<and> BinaryHTTPAppHandler_Handle demo_lib demo_filter [2] no_effects =
         (Inl ErrGatewayTargetForbidden, fire metricsResultTargetRequestForbidden no_effects)"
    using filtered_handler_allowlist [where h = demo_filter and lib = demo_lib and b = "[2]"
      and origins = "[''allowed.example'' \<mapsto> True, ''down.example'' \<mapsto> True]"
      and msg = "[]" and req = "demo_target ''forbidden.example''" and e = no_effects]
    by (simp add: demo_filter_def demo_target_def demo_lib_def demo_decode_def fetched_fire)
  have absent:
    "fst (FilteredHttpRequestHandler_Handle demo_unfiltered
        (demo_target ''forbidden.example'') no_effects) \<noteq> Inl ErrGatewayTargetForbidden
     \<and> fetched (snd (FilteredHttpRequestHandler_Handle demo_unfiltered
          (demo_target ''forbidden.example'') no_effects)) =
         fetched no_effects @ [demo_target ''forbidden.example'']"
    using filtered_handler_allowlist [where h = demo_unfiltered and lib = demo_lib
      and b = "[2]" and origins = Map.empty and msg = "[]"
      and req = "demo_target ''forbidden.example''" and e = no_effects]
    by (simp add: demo_unfiltered_def)
  have down:
    "BinaryHTTPAppHandler_Handle demo_lib demo_filter [3] no_effects =
       (Inl ErrGatewayInternalServer,
        fire metricsResultTargetRequestFailed
          (no_effects\<lparr>fetched := fetched no_effects @ [demo_target ''down.example'']\<rparr>))"
    using filtered_handler_allowlist [where h = demo_filter and lib = demo_lib and b = "[3]"
      and origins = "[''allowed.example'' \<mapsto> True, ''down.example'' \<mapsto> True]"
      and req = "demo_target ''down.example''" and e = no_effects
      and msg = "''connection refused''"]
    by (auto simp add: demo_filter_def demo_target_def demo_lib_def demo_decode_def
        demo_client_def)
  show ?thesis
    using forbidden absent down by (simp add: no_effects_def fetched_fire)
qed

text \<open>
  C6.  The claim: a host outside a present allowlist is refused with
  \<^verbatim>\<open>GatewayTargetForbidden\<close> and \<^verbatim>\<open>request_forbidden\<close> without a fetch, an absent allowlist permits
  every host, and a failed fetch is reported to the client as \<^verbatim>\<open>GatewayInternalServer\<close>.  The
  handlers do the first two and return \<^verbatim>\<open>ErrGatewayInternalServer\<close> for the third, but the
  client is not told: the frontend answers the failed fetch with the outer status 400 and
  the plain text of that status, as it answers a forbidden target.  The defect is the one
  of C1, the application error that is returned unsealed.
\<close>

theorem fetch_failure_outer_status:
  assumes "\<not> wroteHeader w"
    and "Method r = MethodPost"
    and "Header_Get r ''Content-Type'' = ohttpRequestContentType"
    and "encapsulationHandlers s (URLPath r) =
           Some (DefaultEncapsulationHandler g (BinaryHTTPAppHandler httpHandler))"
    and "Body r = Some b"
    and "UnmarshalEncapsulatedRequest lib b = Some req"
    and "MatchesConfig g req"
    and "DecapsulateRequest g req = Some (binaryRequest, ctx)"
    and "UnmarshalBinaryRequest lib binaryRequest = Some inner"
    and "case allowedOrigins httpHandler of
           None \<Rightarrow> True
         | Some origins \<Rightarrow> origins (Host inner) \<noteq> None"
    and "client httpHandler inner = Inl msg"
  shows "fst (BinaryHTTPAppHandler_Handle lib httpHandler binaryRequest e) =
           Inl ErrGatewayInternalServer
       \<and> fetched (snd (gatewayHandler lib s w r)) = [inner]
       \<and> code (fst (gatewayHandler lib s w r)) = StatusBadRequest
       \<and> sent (fst (gatewayHandler lib s w r)) ''Content-Type'' =
           Some ''text/plain; charset=utf-8''
       \<and> body (fst (gatewayHandler lib s w r)) =
           body w @ bytes_of (''Bad Request'' @ [CHR 0x0A]) @
           bytes_of ((if debugResponse s then ''Invalid content type: message/ohttp-req''
                      else ''Bad Request'') @ [CHR 0x0A])"
proof -
  let ?e = "\<lparr>metrics = Create metricsEventGatewayRequest, fetched = []\<rparr>"
  have app: "BinaryHTTPAppHandler_Handle lib httpHandler binaryRequest e =
               (Inl ErrGatewayInternalServer,
                fire metricsResultTargetRequestFailed (e\<lparr>fetched := fetched e @ [inner]\<rparr>))"
    for e
  proof -
    have "allowedOrigins httpHandler = None \<or>
          (\<exists>origins. allowedOrigins httpHandler = Some origins \<and>
             origins (Host inner) \<noteq> None)"
      using assms(10) by (cases "allowedOrigins httpHandler") simp_all
    then show ?thesis
      using filtered_handler_allowlist [where h = httpHandler and lib = lib
        and b = binaryRequest and req = inner and msg = msg and e = e] assms(9,11)
      by blast
  qed
  have h: "EncapsulationHandler_Handle lib
             (DefaultEncapsulationHandler g (BinaryHTTPAppHandler httpHandler)) r req ?e =
           (Inl ErrGatewayInternalServer,
            fire metricsResultTargetRequestFailed (?e\<lparr>fetched := fetched ?e @ [inner]\<rparr>))"
    using assms(7,8) by (simp add: DefaultEncapsulationHandler_Handle_def app)
  show ?thesis
    using assms(1)
    by (simp add: gatewayHandler_error [OF assms(2-6) h] app fst_httpError_fx
        snd_httpError_fx code_http_Error wroteHeader_http_Error sent_http_Error
        body_http_Error StatusText_def fetched_fire)
qed

theorem fetch_failure_outer_status_witness:
  "fst (BinaryHTTPAppHandler_Handle demo_lib demo_filter [3] no_effects) =
     Inl ErrGatewayInternalServer
   \<and> payloadErrorToPayloadStatusCode ErrGatewayInternalServer = 500
   \<and> fetched (snd (gatewayHandler demo_lib demo_resource (NewRecorder demo_detect)
        (demo_request ''POST'' ''/gateway'' ''message/ohttp-req'' [1, 1, 170, 3]))) =
       [demo_target ''down.example'']
   \<and> code (fst (gatewayHandler demo_lib demo_resource (NewRecorder demo_detect)
        (demo_request ''POST'' ''/gateway'' ''message/ohttp-req'' [1, 1, 170, 3]))) = 400
   \<and> body (fst (gatewayHandler demo_lib demo_resource (NewRecorder demo_detect)
        (demo_request ''POST'' ''/gateway'' ''message/ohttp-req'' [1, 1, 170, 3]))) =
       bytes_of (''Bad Request'' @ [CHR 0x0A]) @ bytes_of (''Bad Request'' @ [CHR 0x0A])
   \<and> fst (gatewayHandler demo_lib demo_resource (NewRecorder demo_detect)
        (demo_request ''POST'' ''/gateway'' ''message/ohttp-req'' [1, 1, 170, 3])) =
     fst (gatewayHandler demo_lib demo_resource (NewRecorder demo_detect)
        (demo_request ''POST'' ''/gateway'' ''message/ohttp-req'' [1, 1, 170, 2]))"
proof -
  have same:
    "fst (gatewayHandler demo_lib demo_resource (NewRecorder demo_detect)
        (demo_request ''POST'' ''/gateway'' ''message/ohttp-req'' [1, 1, 170, 3])) =
     fst (gatewayHandler demo_lib demo_resource (NewRecorder demo_detect)
        (demo_request ''POST'' ''/gateway'' ''message/ohttp-req'' [1, 1, 170, 2]))"
    by (simp add: demo_defs handler_defs)
  have failed:
    "fst (BinaryHTTPAppHandler_Handle demo_lib demo_filter [3] no_effects) =
       Inl ErrGatewayInternalServer
     \<and> fetched (snd (gatewayHandler demo_lib demo_resource (NewRecorder demo_detect)
          (demo_request ''POST'' ''/gateway'' ''message/ohttp-req'' [1, 1, 170, 3]))) =
         [demo_target ''down.example'']
     \<and> code (fst (gatewayHandler demo_lib demo_resource (NewRecorder demo_detect)
          (demo_request ''POST'' ''/gateway'' ''message/ohttp-req'' [1, 1, 170, 3]))) = 400
     \<and> body (fst (gatewayHandler demo_lib demo_resource (NewRecorder demo_detect)
          (demo_request ''POST'' ''/gateway'' ''message/ohttp-req'' [1, 1, 170, 3]))) =
         bytes_of (''Bad Request'' @ [CHR 0x0A]) @ bytes_of (''Bad Request'' @ [CHR 0x0A])"
    using fetch_failure_outer_status [where w = "NewRecorder demo_detect"
      and lib = demo_lib and s = demo_resource and g = demo_gateway
      and httpHandler = demo_filter and e = no_effects
      and r = "demo_request ''POST'' ''/gateway'' ''message/ohttp-req'' [1, 1, 170, 3]"
      and b = "[1, 1, 170, 3]" and binaryRequest = "[3]" and ctx = "()"
      and req = "demo_encapsulated 1 KEM_X25519_KYBER768_DRAFT00 [170, 3]"
      and inner = "demo_target ''down.example''" and msg = "''connection refused''"]
    by (simp add: demo_defs NewRecorder_def Header_Get_def)
  show ?thesis
    using same failed by simp
qed

subsection \<open>The echo handler\<close>

text \<open>
  C8.  The echo handler returns the plaintext it is given, unchanged, and does not fail;
  behind the default encapsulation handler the response that is sealed is that plaintext.
\<close>

theorem echo_returns_plaintext:
  "AppContentHandler_Handle lib EchoAppHandler m e = (Inr m, fire metricsResultSuccess e)
   \<and> (MatchesConfig g req \<and> DecapsulateRequest g req = Some (m, ctx) \<longrightarrow>
        DefaultEncapsulationHandler_Handle lib g EchoAppHandler outer req e =
          (case EncapsulateResponse lib ctx m of
             None \<Rightarrow>
               (Inl ErrEncapsulation,
                fire metricsResultEncapsulationFailed (fire metricsResultSuccess e))
           | Some resp \<Rightarrow> (Inr resp, fire metricsResultSuccess e)))"
  by (simp add: EchoAppHandler_Handle_def DefaultEncapsulationHandler_Handle_def)

theorem echo_returns_plaintext_witness:
  "AppContentHandler_Handle demo_lib EchoAppHandler [0xCA, 0xFE] no_effects =
     (Inr [0xCA, 0xFE], fire metricsResultSuccess no_effects)
   \<and> DefaultEncapsulationHandler_Handle demo_lib demo_gateway EchoAppHandler
        (demo_request ''POST'' ''/gateway-echo'' ''message/ohttp-req'' [1, 1, 170, 0xCA, 0xFE])
        \<lparr>KeyID = 1, reqKemID = KEM_X25519_KYBER768_DRAFT00, reqKdfID = KDF_HKDF_SHA256,
          reqAeadID = AEAD_AES128GCM, enc = [], ct = [170, 0xCA, 0xFE]\<rparr> no_effects =
       (Inr \<lparr>nonce = [9], sealed = [0xCA, 0xFE]\<rparr>, fire metricsResultSuccess no_effects)"
  using echo_returns_plaintext [where lib = demo_lib and m = "[0xCA, 0xFE]"
    and e = no_effects and g = demo_gateway and ctx = "()"
    and outer = "demo_request ''POST'' ''/gateway-echo'' ''message/ohttp-req''
                   [1, 1, 170, 0xCA, 0xFE]"
    and req = "\<lparr>KeyID = 1, reqKemID = KEM_X25519_KYBER768_DRAFT00,
                 reqKdfID = KDF_HKDF_SHA256, reqAeadID = AEAD_AES128GCM, enc = [],
                 ct = [170, 0xCA, 0xFE]\<rparr>"]
  by (simp add: demo_defs)

subsection \<open>The key-discovery endpoints\<close>

lemma max_age_bounds:
  "12 * 3600 \<le> twelveHours + Intn twentyFourHours draw \<and>
   twelveHours + Intn twentyFourHours draw < 36 * 3600"
proof -
  have "draw mod 86400 < 86400" by simp
  then show ?thesis by (simp add: Intn_def)
qed

lemma sent_configHandler:
  "sent (fst (configHandler s draw (NewRecorder detect) r)) =
     [''Cache-Control'' \<mapsto> cache_control (twelveHours + Intn twentyFourHours draw),
      ''Content-Type'' \<mapsto> ''application/ohttp-keys'']"
  by (simp add: configHandler_def Let_def Write_def WriteHeader_def sniffs_def Header_Set_def
      NewRecorder_def)


lemma code_configHandler: "code (fst (configHandler s draw (NewRecorder detect) r)) = StatusOK"
  by (simp add: configHandler_def Let_def Write_def WriteHeader_def sniffs_def Header_Set_def
      NewRecorder_def)

lemma legacyConfigHandler_ok:
  "Config (gateway s) (legacyKeyID s) = Some c \<Longrightarrow>
   legacyConfigHandler s draw (NewRecorder detect) r =
     (\<lparr>header = [''Cache-Control'' \<mapsto> cache_control (twelveHours + Intn twentyFourHours draw)],
       wroteHeader = True, code = StatusOK,
       sent =
         (if c = []
          then [''Cache-Control'' \<mapsto> cache_control (twelveHours + Intn twentyFourHours draw)]
          else [''Cache-Control'' \<mapsto> cache_control (twelveHours + Intn twentyFourHours draw),
                ''Content-Type'' \<mapsto> detect c]),
       body = c, sniff = detect\<rparr>,
      ResponseStatus (Method r) StatusOK (Create metricsEventConfigsRequest))"
  by (simp add: legacyConfigHandler_def Let_def Write_def WriteHeader_def sniffs_def Header_Set_def
      NewRecorder_def)

lemma legacyConfigHandler_unavailable:
  "Config (gateway s) (legacyKeyID s) = None \<Longrightarrow>
   legacyConfigHandler s draw (NewRecorder detect) r =
     httpError s (NewRecorder detect) StatusInternalServerError ''Config unavailable''
       (Fire metricsResultConfigsUnavalable (Create metricsEventConfigsRequest)) (Method r)"
  by (simp add: legacyConfigHandler_def Let_def)

text \<open>
  The configurations that \<^verbatim>\<open>main\<close> derives carry the primary key id and the legacy key id,
  which differ; the legacy key id that the resource keeps is the key id of the legacy
  configuration, the second of the two that the gateway is built from.
\<close>

lemma legacyConfigID_neq: "legacyConfigID k \<noteq> k"
proof
  assume "legacyConfigID k = k"
  then have "unat (legacyConfigID k) = unat k" by simp
  then have e: "((unat k + 128) mod 256) mod 255 = unat k"
    by (simp add: unat_legacyConfigID)
  have b: "unat k < 256" using unsigned_less [of k, where 'a = nat] by simp
  consider "unat k < 127" | "unat k = 127" | "128 \<le> unat k" by linarith
  then show False
  proof cases
    case 1
    then show False using e by simp
  next
    case 2
    then show False using e by simp
  next
    case 3
    then have "unat k + 128 = (unat k - 128) + 256" by simp
    then have "(unat k + 128) mod 256 = (unat k - 128) mod 256" by (metis mod_add_self2)
    also have "\<dots> = unat k - 128" using b by simp
    finally show False using e 3 b by simp
  qed
qed

lemma main_configs_key_ids:
  assumes "main_configs rejects configID sd = Some (config, legacyConfig)"
  shows "keyID config = configID \<and> keyID legacyConfig = legacyConfigID configID"
  using assms
  by (auto simp add: main_configs_def NewConfigFromSeed_def
      split: option.splits if_splits)

lemma main_resource_legacy_config:
  assumes "main_configs rejects configID sd = Some (config, legacyConfig)"
  shows "Config (gateway (main_resource newGateway st config legacyConfig (legacyConfigID configID)))
           (legacyKeyID (main_resource newGateway st config legacyConfig (legacyConfigID configID))) =
         Config (newGateway [config, legacyConfig]) (keyID legacyConfig)"
  using main_configs_key_ids [OF assms]
  by (simp add: main_resource_def Let_def)


text \<open>
  The gateway of the spec has the public form of the legacy configuration that \<^verbatim>\<open>main\<close>
  derives, under the key id that the resource keeps.
\<close>

lemma main_legacy_config_available:
  assumes "main_configs rejects configID sd = Some (config, legacyConfig)"
  shows "Config (NewDefaultGateway public hpke_open [config, legacyConfig]) (keyID legacyConfig) =
         Some (public legacyConfig)"
  using main_configs_key_ids [OF assms] legacyConfigID_neq [of configID]
  by (simp add: NewDefaultGateway_def lookup_config_def)

lemma legacy_window:
  assumes "Config (gateway s) (legacyKeyID s) = Some c"
  shows "\<exists>N. 12 * 3600 \<le> N \<and> N < 36 * 3600 \<and>
        sent (fst (legacyConfigHandler s draw (NewRecorder detect) r)) ''Cache-Control'' =
          Some (''max-age='' @ string_of_nat N @ '', private'')"
  using max_age_bounds [of draw]
  by (intro exI [of _ "twelveHours + Intn twentyFourHours draw"])
     (simp add: legacyConfigHandler_ok [OF assms] cache_control_def)

text \<open>
  C7.  Every response of the current endpoint carries \<^verbatim>\<open>Cache-Control: max-age=N, private\<close>
  with \<open>43200 \<le> N < 129600\<close>, and so does every response of the legacy endpoint for which
  the gateway has a configuration of the legacy key id.  With the resource that \<^verbatim>\<open>main\<close>
  builds that is every response of the legacy endpoint, given that the library's gateway
  has a configuration of the key id of the legacy configuration it was built from.
\<close>

theorem cache_control_window:
  "(\<exists>N. 12 * 3600 \<le> N \<and> N < 36 * 3600 \<and>
        sent (fst (configHandler s draw (NewRecorder detect) r)) ''Cache-Control'' =
          Some (''max-age='' @ string_of_nat N @ '', private''))
   \<and> (Config (gateway s) (legacyKeyID s) \<noteq> None \<longrightarrow>
      (\<exists>N. 12 * 3600 \<le> N \<and> N < 36 * 3600 \<and>
        sent (fst (legacyConfigHandler s draw (NewRecorder detect) r)) ''Cache-Control'' =
          Some (''max-age='' @ string_of_nat N @ '', private'')))
   \<and> (main_configs rejects configID sd = Some (config, legacyConfig) \<and>
      Config (newGateway [config, legacyConfig]) (keyID legacyConfig) \<noteq> None \<longrightarrow>
      (\<exists>N. 12 * 3600 \<le> N \<and> N < 36 * 3600 \<and>
        sent (fst (legacyConfigHandler
                (main_resource newGateway st config legacyConfig (legacyConfigID configID))
                draw (NewRecorder detect) r)) ''Cache-Control'' =
          Some (''max-age='' @ string_of_nat N @ '', private'')))"
proof -
  let ?N = "twelveHours + Intn twentyFourHours draw"
  have current: "(\<exists>N. 12 * 3600 \<le> N \<and> N < 36 * 3600 \<and>
        sent (fst (configHandler s draw (NewRecorder detect) r)) ''Cache-Control'' =
          Some (''max-age='' @ string_of_nat N @ '', private''))"
    using max_age_bounds [of draw]
    by (intro exI [of _ ?N]) (simp add: sent_configHandler cache_control_def)
  show ?thesis
  proof (intro conjI impI)
    show "(\<exists>N. 12 * 3600 \<le> N \<and> N < 36 * 3600 \<and>
        sent (fst (configHandler s draw (NewRecorder detect) r)) ''Cache-Control'' =
          Some (''max-age='' @ string_of_nat N @ '', private''))"
      by (rule current)
  next
    assume "Config (gateway s) (legacyKeyID s) \<noteq> None"
    then obtain c where "Config (gateway s) (legacyKeyID s) = Some c" by auto
    then show "(\<exists>N. 12 * 3600 \<le> N \<and> N < 36 * 3600 \<and>
        sent (fst (legacyConfigHandler s draw (NewRecorder detect) r)) ''Cache-Control'' =
          Some (''max-age='' @ string_of_nat N @ '', private''))"
      by (rule legacy_window)
  next
    assume "main_configs rejects configID sd = Some (config, legacyConfig) \<and>
      Config (newGateway [config, legacyConfig]) (keyID legacyConfig) \<noteq> None"
    then obtain c where
      "Config (gateway (main_resource newGateway st config legacyConfig (legacyConfigID configID)))
         (legacyKeyID (main_resource newGateway st config legacyConfig (legacyConfigID configID))) = Some c"
      using main_resource_legacy_config [of rejects configID sd config legacyConfig newGateway st]
      by auto
    then show "(\<exists>N. 12 * 3600 \<le> N \<and> N < 36 * 3600 \<and>
        sent (fst (legacyConfigHandler
                (main_resource newGateway st config legacyConfig (legacyConfigID configID))
                draw (NewRecorder detect) r)) ''Cache-Control'' =
          Some (''max-age='' @ string_of_nat N @ '', private''))"
      by (rule legacy_window)
  qed
qed

lemma string_of_nat_45200: "string_of_nat 45200 = ''45200''"
  by (simp add: string_of_nat.simps digit_def)

theorem cache_control_window_witness:
  "main_configs never_rejects 1 zero_seed = Some (demo_main_config, demo_main_legacy)
   \<and> Config (NewDefaultGateway demo_public demo_open [demo_main_config, demo_main_legacy])
        (keyID demo_main_legacy) = Some [129, 42]
   \<and> sent (fst (configHandler demo_main_resource 2000 (NewRecorder demo_detect)
        (demo_get ''/ohttp-keys''))) ''Cache-Control'' = Some ''max-age=45200, private''
   \<and> sent (fst (legacyConfigHandler demo_main_resource 2000 (NewRecorder demo_detect)
        (demo_get ''/ohttp-configs''))) ''Cache-Control'' = Some ''max-age=45200, private''
   \<and> Config (gateway demo_resource) (legacyKeyID demo_resource) = Some [0, 42]
   \<and> sent (fst (legacyConfigHandler demo_resource 2000 (NewRecorder demo_detect)
        (demo_get ''/ohttp-configs''))) ''Cache-Control'' = Some ''max-age=45200, private''
   \<and> (\<exists>N. 12 * 3600 \<le> N \<and> N < 36 * 3600 \<and>
        sent (fst (legacyConfigHandler demo_main_resource 2000 (NewRecorder demo_detect)
          (demo_get ''/ohttp-configs''))) ''Cache-Control'' =
          Some (''max-age='' @ string_of_nat N @ '', private''))"
proof -
  have m: "main_configs never_rejects 1 zero_seed = Some (demo_main_config, demo_main_legacy)"
    by (simp add: main_configs_def NewConfigFromSeed_def flip_last_def never_rejects_def
        zero_seed_def legacyConfigID_def demo_main_config_def demo_main_legacy_def)
  have a: "Config (NewDefaultGateway demo_public demo_open [demo_main_config, demo_main_legacy])
             (keyID demo_main_legacy) = Some [129, 42]"
    using main_legacy_config_available [OF m, of demo_public demo_open]
    by (simp add: demo_public_def demo_main_legacy_def)
  have c: "Config (gateway demo_resource) (legacyKeyID demo_resource) = Some [0, 42]"
    by (simp add: demo_defs)
  have cm: "Config (gateway demo_main_resource) (legacyKeyID demo_main_resource) =
              Some [129, 42]"
    using main_resource_legacy_config
      [OF m, of "NewDefaultGateway demo_public demo_open" demo_settings] a
    by (simp add: demo_main_resource_def)
  note w = cache_control_window [where s = demo_resource and draw = 2000
    and detect = demo_detect and r = "demo_get ''/ohttp-configs''"
    and rejects = never_rejects and configID = 1 and sd = zero_seed
    and config = demo_main_config and legacyConfig = demo_main_legacy
    and newGateway = "NewDefaultGateway demo_public demo_open" and st = demo_settings]
  have windowed:
    "\<exists>N. 12 * 3600 \<le> N \<and> N < 36 * 3600 \<and>
        sent (fst (legacyConfigHandler demo_main_resource 2000 (NewRecorder demo_detect)
          (demo_get ''/ohttp-configs''))) ''Cache-Control'' =
          Some (''max-age='' @ string_of_nat N @ '', private'')"
    using w m a by (simp add: demo_main_resource_def)
  show ?thesis
    using m a c windowed
    by (simp add: legacyConfigHandler_ok [OF c] legacyConfigHandler_ok [OF cm]
        sent_configHandler cache_control_def Intn_def string_of_nat_45200)
qed

text \<open>
  C10.  When the gateway has no configuration of the stored legacy key id, the legacy
  endpoint answers 500, fires \<^verbatim>\<open>configs_unavailable\<close> and the status label and nothing else,
  sends no \<^verbatim>\<open>Cache-Control\<close>, and its body is the error text alone.  No other response of
  the two endpoints fails: the legacy endpoint answers 200 otherwise, the current endpoint
  always.
\<close>

theorem legacy_config_unavailable:
  "(Config (gateway s) (legacyKeyID s) = None \<longrightarrow>
      code (fst (legacyConfigHandler s draw (NewRecorder detect) r)) = StatusInternalServerError \<and>
      resultLabels (snd (legacyConfigHandler s draw (NewRecorder detect) r)) =
        [metricsResultConfigsUnavalable, Method r @ ''_response_status_500''] \<and>
      sent (fst (legacyConfigHandler s draw (NewRecorder detect) r)) ''Cache-Control'' = None \<and>
      body (fst (legacyConfigHandler s draw (NewRecorder detect) r)) =
        bytes_of ((if debugResponse s then ''Config unavailable''
                   else ''Internal Server Error'') @ [CHR 0x0A]))
   \<and> (Config (gateway s) (legacyKeyID s) \<noteq> None \<longrightarrow>
      code (fst (legacyConfigHandler s draw (NewRecorder detect) r)) = StatusOK)
   \<and> code (fst (configHandler s draw (NewRecorder detect) r)) = StatusOK"
proof (intro conjI impI)
  assume n: "Config (gateway s) (legacyKeyID s) = None"
  note u = legacyConfigHandler_unavailable [OF n]
  show "code (fst (legacyConfigHandler s draw (NewRecorder detect) r)) = StatusInternalServerError"
    unfolding u by (simp add: fst_httpError code_http_Error NewRecorder_def)
  show "resultLabels (snd (legacyConfigHandler s draw (NewRecorder detect) r)) =
        [metricsResultConfigsUnavalable, Method r @ ''_response_status_500'']"
    unfolding u
    by (simp add: snd_httpError labels_ResponseStatus labels_Fire Create_def
        string_of_nat_500)
  show "sent (fst (legacyConfigHandler s draw (NewRecorder detect) r)) ''Cache-Control'' = None"
    unfolding u by (simp add: fst_httpError sent_http_Error NewRecorder_def)
  show "body (fst (legacyConfigHandler s draw (NewRecorder detect) r)) =
        bytes_of ((if debugResponse s then ''Config unavailable''
                   else ''Internal Server Error'') @ [CHR 0x0A])"
    unfolding u by (simp add: fst_httpError body_http_Error NewRecorder_def StatusText_def)
next
  assume "Config (gateway s) (legacyKeyID s) \<noteq> None"
  then obtain c where "Config (gateway s) (legacyKeyID s) = Some c" by auto
  then show "code (fst (legacyConfigHandler s draw (NewRecorder detect) r)) = StatusOK"
    by (simp add: legacyConfigHandler_ok)
next
  show "code (fst (configHandler s draw (NewRecorder detect) r)) = StatusOK"
    by (rule code_configHandler)
qed

theorem legacy_config_unavailable_witness:
  "Config (gateway demo_resource_without_legacy) (legacyKeyID demo_resource_without_legacy) = None
   \<and> code (fst (legacyConfigHandler demo_resource_without_legacy 2000 (NewRecorder demo_detect)
        (demo_get ''/ohttp-configs''))) = 500
   \<and> resultLabels (snd (legacyConfigHandler demo_resource_without_legacy 2000 (NewRecorder demo_detect)
        (demo_get ''/ohttp-configs''))) = [''configs_unavailable'', ''GET_response_status_500'']
   \<and> sent (fst (legacyConfigHandler demo_resource_without_legacy 2000 (NewRecorder demo_detect)
        (demo_get ''/ohttp-configs''))) ''Cache-Control'' = None
   \<and> body (fst (legacyConfigHandler demo_resource_without_legacy 2000 (NewRecorder demo_detect)
        (demo_get ''/ohttp-configs''))) = bytes_of (''Internal Server Error'' @ [CHR 0x0A])
   \<and> Config (gateway demo_resource) (legacyKeyID demo_resource) = Some [0, 42]
   \<and> code (fst (legacyConfigHandler demo_resource 2000 (NewRecorder demo_detect)
        (demo_get ''/ohttp-configs''))) = 200"
  using
    legacy_config_unavailable [where s = demo_resource_without_legacy and draw = 2000
      and detect = demo_detect and r = "demo_get ''/ohttp-configs''"]
    legacy_config_unavailable [where s = demo_resource and draw = 2000
      and detect = demo_detect and r = "demo_get ''/ohttp-configs''"]
  by (simp add: demo_resource_without_legacy_def demo_get_def demo_defs)





end
